theory Spec2Isabelle
  imports Main "HOL-Library.List_Lexorder" "HOL-Library.Char_ord"
begin

section \<open>JavaScript values\<close>

text \<open>
  The repository is TypeScript. Its numbers are modelled by the integers they hold
  (\<open>int\<close>), with \<open>None\<close> for \<open>NaN\<close> where the code can produce it; where the code adds
  numbers that the upstream service chooses, the addition is that of doubles. Its
  strings are \<open>string\<close>, a character standing for a code unit; \<open>\<le>\<close> on strings is the
  lexicographic order by character code, which is what JavaScript's \<open><=\<close> computes on
  two strings.
\<close>

definition digit_char :: "nat \<Rightarrow> char" where
  "digit_char d = ''0123456789'' ! (d mod 10)"

function string_of_nat :: "nat \<Rightarrow> string" where
  "string_of_nat n =
     (if n < 10 then [digit_char n] else string_of_nat (n div 10) @ [digit_char n])"
  by pat_completeness auto
termination
  by (relation "measure id") auto

declare string_of_nat.simps [simp del]

text \<open>What a template literal \<^verbatim>\<open>`${n}`\<close> prints for an integer number.\<close>

definition Number_toString :: "int \<Rightarrow> string" where
  "Number_toString n =
     (if n < 0 then ''-'' @ string_of_nat (nat (- n)) else string_of_nat (nat n))"

text \<open>
  JavaScript numbers are IEEE doubles, and \<open>+\<close> on two of them is the exact sum rounded
  to the nearest double, a tie going to the even mantissa. On integers: a sum below
  \<open>2^53\<close> in magnitude is exact, a larger one keeps its 53 leading bits. (A sum of
  magnitude \<open>2^1024\<close> or more is \<open>Infinity\<close>; the model does not go that far.)
\<close>

function double_scale :: "nat \<Rightarrow> nat" where
  "double_scale n = (if n < 9007199254740992 then 1 else 2 * double_scale (n div 2))"
  by pat_completeness auto
termination
  by (relation "measure id") auto

declare double_scale.simps [simp del]

definition round_nat :: "nat \<Rightarrow> nat" where
  "round_nat n =
     (let q = double_scale n; m = n div q; r = n mod q
      in if 2 * r < q then m * q
         else if q < 2 * r then (m + 1) * q
         else if even m then m * q else (m + 1) * q)"

definition round_double :: "int \<Rightarrow> int" where
  "round_double n = (if n < 0 then - int (round_nat (nat (- n))) else int (round_nat (nat n)))"

definition double_plus :: "int \<Rightarrow> int \<Rightarrow> int" where
  "double_plus a b = round_double (a + b)"

text \<open>
  A thrown value: an object that is \<open>instanceof Error\<close>, with its \<open>name\<close> and
  \<open>message\<close>, or anything else.
\<close>

datatype thrown = ErrorObject string string | NonError

text \<open>What \<open>fetch\<close> rejects with when its signal is aborted.\<close>

definition AbortError :: thrown where
  "AbortError = ErrorObject ''AbortError'' ''This operation was aborted''"

text \<open>\<^verbatim>\<open>error instanceof Error && error.name === 'AbortError'\<close>\<close>

fun is_AbortError :: "thrown \<Rightarrow> bool" where
  "is_AbortError (ErrorObject name message) = (name = ''AbortError'')"
| "is_AbortError NonError = False"

text \<open>\<^verbatim>\<open>error instanceof Error ? error.message : fallback\<close>\<close>

fun message_or :: "string \<Rightarrow> thrown \<Rightarrow> string" where
  "message_or fallback (ErrorObject name message) = message"
| "message_or fallback NonError = fallback"

subsection \<open>A call of \<open>fetch\<close> bounded by a timer\<close>

text \<open>
  Both the proxy and the widget start \<^verbatim>\<open>setTimeout(() => controller.abort(), FETCH_TIMEOUT)\<close>
  and pass the controller's signal to \<open>fetch\<close>. A call is described by the time in
  milliseconds after which \<open>fetch\<close> would settle by itself and by how it would settle:
  rejecting with a thrown value, or resolving with a response that has a status and
  whose \<open>json()\<close> rejects or resolves with the parsed body. When the timer fires first
  the signal aborts and \<open>fetch\<close> rejects with \<open>AbortError\<close>; the model lets the timer
  win a tie.
\<close>

datatype 'b json_result = JsonRejects thrown | JsonResolves 'b

record 'b fetch_response =
  response_status :: nat
  response_json :: "'b json_result"

datatype 'b settled = Rejects thrown | Resolves "'b fetch_response"

record 'b fetch_call =
  latency :: nat
  settles :: "'b settled"

definition FETCH_TIMEOUT :: nat where
  "FETCH_TIMEOUT = 10000"

definition fetch_with_signal :: "'b fetch_call \<Rightarrow> 'b settled" where
  "fetch_with_signal call =
     (if FETCH_TIMEOUT \<le> latency call then Rejects AbortError else settles call)"

text \<open>\<open>response.ok\<close>\<close>

definition ok :: "'b fetch_response \<Rightarrow> bool" where
  "ok response = (200 \<le> response_status response \<and> response_status response \<le> 299)"

section \<open>The activity proxy (\<open>GET\<close> of the API route)\<close>

subsection \<open>The upstream data\<close>

text \<open>
  \<^verbatim>\<open>interface ExternalActivity { date: string; count: number; level: number; }\<close>
  \<open>count\<close> and \<open>level\<close> are taken at the declared type and hold integers. The
  upstream service may send a \<open>date\<close> that is no string: where it is an array or an
  object, \<open>date\<close> is the string it converts to, which is what \<open><=\<close>, the argument of
  \<open>localeCompare\<close> and \<open>new Date\<close> read, and \<open>date_is_string\<close> is false.
\<close>

record ExternalActivity =
  date :: string
  date_is_string :: bool
  count :: int
  level :: int

text \<open>
  The operands of \<open>+\<close> in the reduction over \<^verbatim>\<open>Object.values(data.total)\<close>: a number, a
  string, a boolean, \<open>null\<close>, or an object.
\<close>

datatype summand =
  NumberValue int | StringValue string | BooleanValue bool | NullValue | ObjectValue

text \<open>
  An entry of an upstream array: the JSON value \<open>null\<close>; a number, string or boolean;
  an object read as an \<open>ExternalActivity\<close>; or another object, whose \<open>date\<close> is
  missing, \<open>null\<close>, a number or a boolean.
\<close>

datatype primitive = NumberEntry int | StringEntry string | BooleanEntry bool

datatype entry =
  NullEntry | PrimitiveEntry primitive | OtherObject | Activity ExternalActivity

text \<open>
  The route reads two properties of the parsed upstream body and tests them at run
  time, so they are modelled as JavaScript values of any kind. An array is given by its
  entries; an object is taken at the type the source declares for \<open>total\<close>, a
  \<^verbatim>\<open>Record<string | number, number>\<close>, given as the list of its own properties (an
  object has each key once).
\<close>

datatype jsvalue =
    JUndefined
  | JNull
  | JBoolean bool
  | JNumber int
  | JString string
  | JArray "entry list"
  | JObject "(string \<times> int) list"

text \<open>
  The parsed body \<open>data\<close>: the JSON value \<open>null\<close>, or any other JSON value, given by
  what reading \<open>data.contributions\<close> and \<open>data.total\<close> yields (\<open>JUndefined\<close> for a
  property it does not have, as with every number, string, boolean and array).
\<close>

datatype ExternalApiResponse = NullData | Data jsvalue jsvalue

text \<open>\<open>!v\<close> is \<open>\<not> truthy v\<close>.\<close>

fun truthy :: "jsvalue \<Rightarrow> bool" where
  "truthy JUndefined = False"
| "truthy JNull = False"
| "truthy (JBoolean b) = b"
| "truthy (JNumber n) = (n \<noteq> 0)"
| "truthy (JString s) = (s \<noteq> [])"
| "truthy (JArray xs) = True"
| "truthy (JObject m) = True"

fun Array_isArray :: "jsvalue \<Rightarrow> bool" where
  "Array_isArray (JArray xs) = True"
| "Array_isArray v = False"

subsection \<open>What the runtime provides\<close>

text \<open>
  The route calls functions of the JavaScript runtime whose results depend on the
  clock, the locale and the time zone of the server. They are parameters of the model:
  \<^item> \<open>today\<close> is \<^verbatim>\<open>new Date().toISOString().split('T')[0]\<close>;
  \<^item> \<open>localeCompare a b\<close> is \<^verbatim>\<open>a.localeCompare(b)\<close>;
  \<^item> \<open>getFullYear s\<close> is \<^verbatim>\<open>new Date(s).getFullYear()\<close>, \<open>None\<close> when it is \<open>NaN\<close>;
  \<^item> \<open>receiver_is_object kept\<close> says whether the engine's sort, on the array \<open>kept\<close>,
    calls the comparison function with a first argument whose date is no string (which
    entries a sort compares, and in which roles, is the engine's choice);
  \<^item> \<open>engine_message\<close> is the wording of the messages of the errors the engine itself
    throws.
\<close>

datatype engine_fault =
    ReadPropertyOfNull | ReadDateOfNull | NotAFunction | StatusOutOfRange | NullBodyStatus
  | ValuesOfNullish

record runtime =
  today :: string
  localeCompare :: "string \<Rightarrow> string \<Rightarrow> int"
  getFullYear :: "string \<Rightarrow> int option"
  receiver_is_object :: "ExternalActivity list \<Rightarrow> bool"
  engine_message :: "engine_fault \<Rightarrow> string"

subsection \<open>The response\<close>

record ActivityPayload =
  contributions :: "ExternalActivity list"
  lastYearTotal :: int
  allTimeTotal :: summand
  yearRange :: string

text \<open>
  The body of a response is the object handed to \<open>JSON.stringify\<close>: an object with the
  one property \<open>error\<close>, or the payload.
\<close>

datatype response_body = ErrorBody string | Payload ActivityPayload

record Response =
  status :: nat
  headers :: "(string \<times> string) list"
  body :: response_body

text \<open>
  \<^verbatim>\<open>new Response(body, { status, headers })\<close> with a body: the constructor throws a
  \<open>RangeError\<close> for a status outside 200 to 599 and a \<open>TypeError\<close> for a status that
  allows no body.
\<close>

definition new_Response ::
  "runtime \<Rightarrow> response_body \<Rightarrow> nat \<Rightarrow> (string \<times> string) list \<Rightarrow> thrown + Response" where
  "new_Response rt b s hs =
     (if s < 200 \<or> 599 < s then
        Inl (ErrorObject ''RangeError'' (engine_message rt StatusOutOfRange))
      else if s = 204 \<or> s = 205 \<or> s = 304 then
        Inl (ErrorObject ''TypeError'' (engine_message rt NullBodyStatus))
      else Inr \<lparr>status = s, headers = hs, body = b\<rparr>)"

subsection \<open>The steps of the route\<close>

text \<open>\<open>Array.prototype.sort\<close> with a comparison function: a stable sort.\<close>

fun insert_sorted :: "('a \<Rightarrow> 'a \<Rightarrow> int) \<Rightarrow> 'a \<Rightarrow> 'a list \<Rightarrow> 'a list" where
  "insert_sorted cmp x [] = [x]"
| "insert_sorted cmp x (y # ys) =
     (if cmp x y \<le> 0 then x # y # ys else y # insert_sorted cmp x ys)"

definition Array_sort :: "('a \<Rightarrow> 'a \<Rightarrow> int) \<Rightarrow> 'a list \<Rightarrow> 'a list" where
  "Array_sort cmp xs = foldr (insert_sorted cmp) xs []"

text \<open>\<open>xs.slice(-n)\<close>: the last \<open>n\<close> elements, all of them when there are fewer.\<close>

definition slice_last :: "nat \<Rightarrow> 'a list \<Rightarrow> 'a list" where
  "slice_last n xs = drop (length xs - n) xs"

text \<open>
  \<^verbatim>\<open>data.contributions.filter((c) => c.date <= today)\<close>. Reading \<open>c.date\<close> of \<open>null\<close>
  throws. \<open>today\<close> is the date part of an ISO timestamp and no numeral, so a date that is
  missing, \<open>null\<close>, a number or a boolean is compared with \<open>NaN\<close> and the entry is
  dropped, as is an entry that is a number, string or boolean and has no \<open>date\<close>; a
  date that is a string, or converts to one, is compared as a string.
\<close>

fun Array_filter :: "runtime \<Rightarrow> entry list \<Rightarrow> thrown + ExternalActivity list" where
  "Array_filter rt [] = Inr []"
| "Array_filter rt (NullEntry # cs) =
     Inl (ErrorObject ''TypeError'' (engine_message rt ReadDateOfNull))"
| "Array_filter rt (PrimitiveEntry v # cs) = Array_filter rt cs"
| "Array_filter rt (OtherObject # cs) = Array_filter rt cs"
| "Array_filter rt (Activity c # cs) =
     (case Array_filter rt cs of
        Inl e \<Rightarrow> Inl e
      | Inr kept \<Rightarrow> Inr (if date c \<le> today rt then c # kept else kept))"

text \<open>
  \<^verbatim>\<open>data.contributions.filter(...).sort((a, b) => a.date.localeCompare(b.date))\<close>
  An array of fewer than two entries is sorted without a call of the comparison
  function. \<open>a.date.localeCompare\<close> is no function when \<open>a.date\<close> is no string, and
  the call throws: always when no date kept is a string, and when the engine makes
  such an entry the first argument otherwise.
\<close>

definition sortedContributions :: "runtime \<Rightarrow> entry list \<Rightarrow> thrown + ExternalActivity list" where
  "sortedContributions rt cs =
     (case Array_filter rt cs of
        Inl e \<Rightarrow> Inl e
      | Inr kept \<Rightarrow>
          if 2 \<le> length kept \<and>
             (list_all (\<lambda>c. \<not> date_is_string c) kept
              \<or> (\<not> list_all date_is_string kept \<and> receiver_is_object rt kept))
          then Inl (ErrorObject ''TypeError'' (engine_message rt NotAFunction))
          else Inr (Array_sort (\<lambda>a b. localeCompare rt (date a) (date b)) kept))"

text \<open>\<^verbatim>\<open>sortedContributions.slice(-365)\<close>\<close>

definition lastYearData :: "ExternalActivity list \<Rightarrow> ExternalActivity list" where
  "lastYearData sorted_entries = slice_last 365 sorted_entries"

text \<open>\<open>startYear === endYear\<close> on two numbers: \<open>NaN\<close> equals nothing.\<close>

fun strict_equal :: "int option \<Rightarrow> int option \<Rightarrow> bool" where
  "strict_equal (Some a) (Some b) = (a = b)"
| "strict_equal a b = False"

fun year_toString :: "int option \<Rightarrow> string" where
  "year_toString (Some y) = Number_toString y"
| "year_toString None = ''NaN''"

definition compute_yearRange :: "runtime \<Rightarrow> ExternalActivity list \<Rightarrow> string" where
  "compute_yearRange rt kept =
     (if length kept > 0 then
        (let startYear = getFullYear rt (date (kept ! 0));
             endYear = getFullYear rt (date (kept ! (length kept - 1)))
         in if strict_equal startYear endYear then year_toString startYear
            else year_toString startYear @ '' - '' @ year_toString endYear)
      else '''')"

text \<open>\<^verbatim>\<open>lastYearData.reduce((sum, day) => sum + day.count, 0)\<close>\<close>

definition compute_lastYearTotal :: "ExternalActivity list \<Rightarrow> int" where
  "compute_lastYearTotal kept = foldl (\<lambda>sum day. double_plus sum (count day)) 0 kept"

text \<open>
  \<open>Object.values\<close>: the values of the own properties of an object, the elements of an
  array, the characters of a string, nothing for a number or a boolean, and a
  \<open>TypeError\<close> for \<open>undefined\<close> and \<open>null\<close>.
\<close>

fun summand_of :: "entry \<Rightarrow> summand" where
  "summand_of NullEntry = NullValue"
| "summand_of (PrimitiveEntry (NumberEntry n)) = NumberValue n"
| "summand_of (PrimitiveEntry (StringEntry s)) = StringValue s"
| "summand_of (PrimitiveEntry (BooleanEntry b)) = BooleanValue b"
| "summand_of OtherObject = ObjectValue"
| "summand_of (Activity c) = ObjectValue"

fun Object_values :: "runtime \<Rightarrow> jsvalue \<Rightarrow> thrown + summand list" where
  "Object_values rt (JObject m) = Inr (map (\<lambda>(k, v). NumberValue v) m)"
| "Object_values rt (JArray xs) = Inr (map summand_of xs)"
| "Object_values rt (JString s) = Inr (map (\<lambda>c. StringValue [c]) s)"
| "Object_values rt (JNumber n) = Inr []"
| "Object_values rt (JBoolean b) = Inr []"
| "Object_values rt JUndefined =
     Inl (ErrorObject ''TypeError'' (engine_message rt ValuesOfNullish))"
| "Object_values rt JNull =
     Inl (ErrorObject ''TypeError'' (engine_message rt ValuesOfNullish))"

text \<open>
  \<open>sum + count\<close>: when neither operand is a string or an object the two are added as
  numbers (\<open>null\<close> is 0, \<open>true\<close> is 1), otherwise both are turned into strings and
  joined.
\<close>

fun ToString :: "summand \<Rightarrow> string" where
  "ToString (NumberValue n) = Number_toString n"
| "ToString (StringValue s) = s"
| "ToString (BooleanValue b) = (if b then ''true'' else ''false'')"
| "ToString NullValue = ''null''"
| "ToString ObjectValue = ''[object Object]''"

fun ToNumber :: "summand \<Rightarrow> int option" where
  "ToNumber (NumberValue n) = Some n"
| "ToNumber (BooleanValue b) = Some (if b then 1 else 0)"
| "ToNumber NullValue = Some 0"
| "ToNumber v = None"

definition js_plus :: "summand \<Rightarrow> summand \<Rightarrow> summand" where
  "js_plus a b =
     (case (ToNumber a, ToNumber b) of
        (Some x, Some y) \<Rightarrow> NumberValue (double_plus x y)
      | _ \<Rightarrow> StringValue (ToString a @ ToString b))"

definition compute_allTimeTotal :: "summand list \<Rightarrow> summand" where
  "compute_allTimeTotal vs = foldl (\<lambda>sum count. js_plus sum count) (NumberValue 0) vs"

definition json_headers :: "(string \<times> string) list" where
  "json_headers = [(''Content-Type'', ''application/json'')]"

text \<open>The \<open>catch\<close> block of the route.\<close>

definition catch_block :: "thrown \<Rightarrow> Response" where
  "catch_block e =
     (if is_AbortError e then
        \<lparr>status = 504, headers = json_headers, body = ErrorBody ''Request timed out''\<rparr>
      else
        \<lparr>status = 500, headers = json_headers,
         body = ErrorBody (message_or ''Unknown error'' e)\<rparr>)"

text \<open>The statements of the \<open>try\<close> block after the structure check.\<close>

definition success_response :: "runtime \<Rightarrow> entry list \<Rightarrow> jsvalue \<Rightarrow> Response" where
  "success_response rt cs total_value =
     (case sortedContributions rt cs of
        Inl e \<Rightarrow> catch_block e
      | Inr sorted_entries \<Rightarrow>
          (let kept = lastYearData sorted_entries;
               range = compute_yearRange rt kept;
               lastYear = compute_lastYearTotal kept
           in case Object_values rt total_value of
                Inl e \<Rightarrow> catch_block e
              | Inr vs \<Rightarrow>
                  \<lparr>status = 200,
                   headers = [(''Content-Type'', ''application/json''),
                              (''Cache-Control'', ''public, max-age=3600, s-maxage=3600'')],
                   body = Payload \<lparr>contributions = kept, lastYearTotal = lastYear,
                                    allTimeTotal = compute_allTimeTotal vs,
                                    yearRange = range\<rparr>\<rparr>))"

definition invalid_structure :: Response where
  "invalid_structure =
     \<lparr>status = 502, headers = json_headers,
      body = ErrorBody ''Invalid data structure from GitHub API''\<rparr>"

text \<open>
  \<^verbatim>\<open>if (!data.contributions || !Array.isArray(data.contributions) || !data.total)\<close>
  and what follows it. Reading a property of \<open>null\<close> throws. Only an array passes
  \<open>Array.isArray\<close>, so the last case below is never reached.
\<close>

fun handle_data :: "runtime \<Rightarrow> ExternalApiResponse \<Rightarrow> Response" where
  "handle_data rt NullData =
     catch_block (ErrorObject ''TypeError'' (engine_message rt ReadPropertyOfNull))"
| "handle_data rt (Data contributions_value total_value) =
     (if \<not> truthy contributions_value \<or> \<not> Array_isArray contributions_value
         \<or> \<not> truthy total_value
      then invalid_structure
      else case contributions_value of
             JArray cs \<Rightarrow> success_response rt cs total_value
           | _ \<Rightarrow> invalid_structure)"

text \<open>The route.\<close>

definition GET :: "runtime \<Rightarrow> ExternalApiResponse fetch_call \<Rightarrow> Response" where
  "GET rt call =
     (case fetch_with_signal call of
        Rejects e \<Rightarrow> catch_block e
      | Resolves response \<Rightarrow>
          if \<not> ok response then
            (case new_Response rt
                    (ErrorBody (''Failed to fetch GitHub data: ''
                                @ Number_toString (int (response_status response))))
                    (response_status response) json_headers of
               Inl e \<Rightarrow> catch_block e
             | Inr r \<Rightarrow> r)
          else
            (case response_json response of
               JsonRejects e \<Rightarrow> catch_block e
             | JsonResolves data \<Rightarrow> handle_data rt data))"

section \<open>The activity widget (\<open>GitHubActivity\<close>)\<close>

subsection \<open>Tooltips\<close>

text \<open>
  What the browser provides to the widget:
  \<^item> \<open>toLocaleDateString s\<close> is
    \<^verbatim>\<open>new Date(s).toLocaleDateString("en-US", { month: "long", day: "numeric", year: "numeric" })\<close>;
  \<^item> \<open>localStorage\<close> is the content of the local store; \<open>getItem_throws\<close> and
    \<open>setItem_throws\<close> say whether the store refuses to be read or written;
  \<^item> \<open>JSON_parse\<close> and \<open>JSON_stringify\<close> on the cached record;
  \<^item> \<open>now_at_check\<close> and \<open>now_at_write\<close> are the two readings of \<open>Date.now()\<close>;
  \<^item> \<open>api_call\<close> is how the call of the proxy goes, and \<open>isMounted\<close> is the value of
    the flag of that name when the code after the \<open>await\<close>s runs (the effect's cleanup
    sets it to false).
  The parsed body of the proxy's response is typed \<open>GitHubData\<close> by assertion only: it
  is whatever body the proxy sent.
\<close>

type_synonym GitHubData = response_body

text \<open>
  \<^verbatim>\<open>interface CachedData { data: GitHubData; timestamp: number; version: number; }\<close>
  A record written in the earlier cache format carries no \<open>version\<close>.
\<close>

record CachedData =
  data :: GitHubData
  timestamp :: int
  version :: "int option"

text \<open>
  What \<open>JSON.parse\<close> does on the cached text: it throws a \<open>SyntaxError\<close>, or returns
  \<open>null\<close>, or returns another value, which the code reads as a \<open>CachedData\<close>.
\<close>

datatype parsed_json = ThrowsSyntaxError | ParsedNull | Parsed CachedData

record browser =
  toLocaleDateString :: "string \<Rightarrow> string"
  localStorage :: "string \<rightharpoonup> string"
  getItem_throws :: bool
  setItem_throws :: bool
  JSON_parse :: "string \<Rightarrow> parsed_json"
  JSON_stringify :: "CachedData \<Rightarrow> string"
  now_at_check :: int
  now_at_write :: int
  api_call :: "response_body fetch_call"
  isMounted :: bool

definition formatDate :: "browser \<Rightarrow> string \<Rightarrow> string" where
  "formatDate env dateStr = toLocaleDateString env dateStr"

definition formatTooltip :: "browser \<Rightarrow> int \<Rightarrow> string \<Rightarrow> string" where
  "formatTooltip env n dateStr =
     (let formattedDate = formatDate env dateStr
      in if n = 0 then ''No contributions on '' @ formattedDate
         else if n = 1 then ''1 contribution on '' @ formattedDate
         else Number_toString n @ '' contributions on '' @ formattedDate)"

text \<open>
  \<open>renderBlock\<close> gives every block of the calendar the attribute
  \<open>data-tooltip-content\<close>.
\<close>

definition tooltip_contents :: "browser \<Rightarrow> ExternalActivity list \<Rightarrow> string list" where
  "tooltip_contents env days =
     map (\<lambda>activity. formatTooltip env (count activity) (date activity)) days"

subsection \<open>The effect run on mount\<close>

definition CACHE_KEY :: string where
  "CACHE_KEY = ''github-activity-cache''"

definition CACHE_TTL :: int where
  "CACHE_TTL = 1000 * 60 * 60"

definition CACHE_VERSION :: int where
  "CACHE_VERSION = 2"

datatype widget_status = Loading | Success | Error

text \<open>The three \<open>useState\<close> cells: \<open>data\<close>, \<open>status\<close> and \<open>error\<close>.\<close>

record widget_state =
  state_data :: "GitHubData option"
  state_status :: widget_status
  state_error :: "string option"

definition initial_state :: widget_state where
  "initial_state = \<lparr>state_data = None, state_status = Loading, state_error = None\<rparr>"

text \<open>
  What a run of \<open>fetchData\<close> leaves behind: the state cells, the local store, how often
  \<open>fetch\<close> was called, and the calls of \<open>localStorage.setItem\<close> with their arguments.
\<close>

record mount_outcome =
  final_state :: widget_state
  final_storage :: "string \<rightharpoonup> string"
  fetch_calls :: nat
  setItem_calls :: "(string \<times> string) list"

text \<open>
  \<^verbatim>\<open>const cached = localStorage.getItem(CACHE_KEY); if (cached) ...\<close>: the text to
  parse, if there is one. A throwing store is caught by the \<open>catch\<close> around the cache
  check, and an empty text is falsy.
\<close>

definition cached_text :: "browser \<Rightarrow> string option" where
  "cached_text env =
     (if getItem_throws env then None
      else case localStorage env CACHE_KEY of
             None \<Rightarrow> None
           | Some cached \<Rightarrow> if cached \<noteq> [] then Some cached else None)"

text \<open>
  The record the cache check accepts. Reading \<open>parsed.version\<close> of \<open>null\<close> throws, and
  the \<open>catch\<close> swallows that as it swallows the \<open>SyntaxError\<close>.
\<close>

definition cache_check :: "browser \<Rightarrow> CachedData option" where
  "cache_check env =
     (case cached_text env of
        None \<Rightarrow> None
      | Some cached \<Rightarrow>
          (case JSON_parse env cached of
             ThrowsSyntaxError \<Rightarrow> None
           | ParsedNull \<Rightarrow> None
           | Parsed parsed \<Rightarrow>
               if version parsed = Some CACHE_VERSION
                  \<and> now_at_check env - timestamp parsed < CACHE_TTL
               then Some parsed else None))"

text \<open>The \<open>catch (err)\<close> block of the fetch.\<close>

definition fetch_failed :: "browser \<Rightarrow> thrown \<Rightarrow> mount_outcome" where
  "fetch_failed env err =
     \<lparr>final_state =
        (if isMounted env then
           \<lparr>state_data = None, state_status = Error,
            state_error =
              Some (if is_AbortError err then ''Request timed out. Please try again.''
                    else message_or ''Unable to load GitHub activity'' err)\<rparr>
         else initial_state),
      final_storage = localStorage env, fetch_calls = 1, setItem_calls = []\<rparr>"

text \<open>
  \<^verbatim>\<open>errorData.error || `Failed to fetch: ${response.status}`\<close> with
  \<^verbatim>\<open>errorData = await response.json().catch(() => ({}))\<close>
\<close>

definition error_text :: "response_body fetch_response \<Rightarrow> string" where
  "error_text response =
     (let fallback = ''Failed to fetch: '' @ Number_toString (int (response_status response))
      in case response_json response of
           JsonResolves (ErrorBody e) \<Rightarrow> if e \<noteq> [] then e else fallback
         | JsonResolves (Payload p) \<Rightarrow> fallback
         | JsonRejects e \<Rightarrow> fallback)"

text \<open>The statements after a resolved \<open>response.json()\<close> of an \<open>ok\<close> response.\<close>

definition fetch_succeeded :: "browser \<Rightarrow> GitHubData \<Rightarrow> mount_outcome" where
  "fetch_succeeded env result =
     (if isMounted env then
        (let cacheData = \<lparr>data = result, timestamp = now_at_write env,
                          version = Some CACHE_VERSION\<rparr>
         in \<lparr>final_state = \<lparr>state_data = Some result, state_status = Success,
                             state_error = None\<rparr>,
             final_storage =
               (if setItem_throws env then localStorage env
                else (localStorage env)(CACHE_KEY \<mapsto> JSON_stringify env cacheData)),
             fetch_calls = 1,
             setItem_calls = [(CACHE_KEY, JSON_stringify env cacheData)]\<rparr>)
      else
        \<lparr>final_state = initial_state, final_storage = localStorage env,
         fetch_calls = 1, setItem_calls = []\<rparr>)"

text \<open>The second \<open>try\<close> of \<open>fetchData\<close>: the call of the proxy.\<close>

definition live_fetch :: "browser \<Rightarrow> mount_outcome" where
  "live_fetch env =
     (case fetch_with_signal (api_call env) of
        Rejects err \<Rightarrow> fetch_failed env err
      | Resolves response \<Rightarrow>
          if \<not> ok response then
            fetch_failed env (ErrorObject ''Error'' (error_text response))
          else
            (case response_json response of
               JsonRejects err \<Rightarrow> fetch_failed env err
             | JsonResolves result \<Rightarrow> fetch_succeeded env result))"

text \<open>
  \<open>fetchData\<close>, started from the initial state. The cache check runs before the first
  \<open>await\<close>, when \<open>isMounted\<close> is still true.
\<close>

definition fetchData :: "browser \<Rightarrow> mount_outcome" where
  "fetchData env =
     (case cache_check env of
        Some parsed \<Rightarrow>
          \<lparr>final_state = \<lparr>state_data = Some (data parsed), state_status = Success,
                           state_error = None\<rparr>,
           final_storage = localStorage env, fetch_calls = 0, setItem_calls = []\<rparr>
      | None \<Rightarrow> live_fetch env)"

section \<open>Notions used in the statements\<close>

text \<open>
  A comparison function that \<open>Array.prototype.sort\<close> can sort by: whenever it puts \<open>a\<close>
  after \<open>b\<close> it does not put \<open>b\<close> after \<open>a\<close>, and "not after" is transitive.
\<close>

definition consistent_comparator :: "('a \<Rightarrow> 'a \<Rightarrow> int) \<Rightarrow> bool" where
  "consistent_comparator cmp =
     ((\<forall>a b. 0 < cmp a b \<longrightarrow> cmp b a \<le> 0) \<and>
      (\<forall>a b c. cmp a b \<le> 0 \<longrightarrow> cmp b c \<le> 0 \<longrightarrow> cmp a c \<le> 0))"

text \<open>The object the route hands to \<open>JSON.stringify\<close> on success.\<close>

definition payload_of :: "runtime \<Rightarrow> ExternalActivity list \<Rightarrow> summand list \<Rightarrow> ActivityPayload" where
  "payload_of rt sorted_entries vs =
     \<lparr>contributions = lastYearData sorted_entries,
      lastYearTotal = compute_lastYearTotal (lastYearData sorted_entries),
      allTimeTotal = compute_allTimeTotal vs,
      yearRange = compute_yearRange rt (lastYearData sorted_entries)\<rparr>"

text \<open>The entries of an upstream array that are read as an \<open>ExternalActivity\<close>.\<close>

fun activities :: "entry list \<Rightarrow> ExternalActivity list" where
  "activities [] = []"
| "activities (Activity c # cs) = c # activities cs"
| "activities (c # cs) = activities cs"

text \<open>
  The contributions and the \<open>yearRange\<close> a response returns, empty when it is an error.
\<close>

definition returned_contributions :: "Response \<Rightarrow> ExternalActivity list" where
  "returned_contributions r = (case body r of Payload p \<Rightarrow> contributions p | ErrorBody e \<Rightarrow> [])"

definition returned_yearRange :: "Response \<Rightarrow> string" where
  "returned_yearRange r = (case body r of Payload p \<Rightarrow> yearRange p | ErrorBody e \<Rightarrow> [])"

text \<open>A value is a mapping when it is a plain object.\<close>

definition is_mapping :: "jsvalue \<Rightarrow> bool" where
  "is_mapping v = (case v of JObject m \<Rightarrow> True | _ \<Rightarrow> False)"

text \<open>
  The invariant of \<open>ContributionDay\<close> and the two forms of \<open>yearRange\<close>, as the
  specification words them; the code has no function for either. A well-formed
  calendar date is \<open>YYYY-MM-DD\<close> with a month from 01 to 12 and a day that the month has.
\<close>

definition is_digit :: "char \<Rightarrow> bool" where
  "is_digit c = (CHR ''0'' \<le> c \<and> c \<le> CHR ''9'')"

definition digit_value :: "char \<Rightarrow> nat" where
  "digit_value c = of_char c - 48"

definition number_of_digits :: "string \<Rightarrow> nat" where
  "number_of_digits s = foldl (\<lambda>n c. 10 * n + digit_value c) 0 s"

definition leap_year :: "nat \<Rightarrow> bool" where
  "leap_year y = (y mod 4 = 0 \<and> (y mod 100 \<noteq> 0 \<or> y mod 400 = 0))"

definition days_in_month :: "nat \<Rightarrow> nat \<Rightarrow> nat" where
  "days_in_month y m =
     (if m = 2 then (if leap_year y then 29 else 28)
      else if m = 4 \<or> m = 6 \<or> m = 9 \<or> m = 11 then 30 else 31)"

definition calendar_date :: "string \<Rightarrow> bool" where
  "calendar_date s =
     (length s = 10 \<and> s ! 4 = CHR ''-'' \<and> s ! 7 = CHR ''-'' \<and>
      list_all is_digit (take 4 s @ take 2 (drop 5 s) @ drop 8 s) \<and>
      (let y = number_of_digits (take 4 s);
           m = number_of_digits (take 2 (drop 5 s));
           d = number_of_digits (drop 8 s)
       in 1 \<le> m \<and> m \<le> 12 \<and> 1 \<le> d \<and> d \<le> days_in_month y m))"

text \<open>The calendar year of a date string \<open>YYYY-MM-DD\<close>: the number \<open>YYYY\<close>.\<close>

definition calendar_year :: "string \<Rightarrow> int" where
  "calendar_year s = int (number_of_digits (take 4 s))"

definition ContributionDay_invariant :: "ExternalActivity \<Rightarrow> bool" where
  "ContributionDay_invariant c =
     (date_is_string c \<and> calendar_date (date c) \<and> 0 \<le> count c)"

definition is_YYYY :: "string \<Rightarrow> bool" where
  "is_YYYY s = (length s = 4 \<and> list_all is_digit s)"

definition yearRange_form :: "string \<Rightarrow> bool" where
  "yearRange_form s =
     (is_YYYY s \<or>
      (length s = 11 \<and> is_YYYY (take 4 s) \<and> take 3 (drop 4 s) = '' - '' \<and>
       is_YYYY (drop 7 s)))"

section \<open>An example server and an example browser\<close>

text \<open>
  A runtime to evaluate the route on: a server whose clock reads 3 January 2024, that
  compares strings by character code and runs in UTC, so that on a calendar date
  \<open>YYYY-MM-DD\<close> \<open>getFullYear\<close> is the number \<open>YYYY\<close>. The examples read the year
  of calendar dates and of \<open>1999-13-45\<close>, which is no date and gives \<open>NaN\<close>.
\<close>

definition compare_strings :: "string \<Rightarrow> string \<Rightarrow> int" where
  "compare_strings a b = (if a < b then - 1 else if a = b then 0 else 1)"

definition utc_getFullYear :: "string \<Rightarrow> int option" where
  "utc_getFullYear s = (if calendar_date s then Some (calendar_year s) else None)"

definition example_runtime :: runtime where
  "example_runtime =
     \<lparr>today = ''2024-01-03'', localeCompare = compare_strings,
      getFullYear = utc_getFullYear, receiver_is_object = (\<lambda>kept. True),
      engine_message = (\<lambda>f. ''engine message'')\<rparr>"

text \<open>
  A second server, whose \<open>localeCompare\<close> follows a collation in which the hyphen comes
  before the exclamation mark, as it does in the collation of ICU that JavaScript
  engines use; by character code the exclamation mark comes first.
\<close>

definition collation_key :: "char \<Rightarrow> nat" where
  "collation_key c = (if c = CHR ''-'' then 0 else of_char c + 1)"

definition compare_collated :: "string \<Rightarrow> string \<Rightarrow> int" where
  "compare_collated a b =
     (if map collation_key a < map collation_key b then - 1
      else if map collation_key a = map collation_key b then 0 else 1)"

definition collating_runtime :: runtime where
  "collating_runtime = example_runtime\<lparr>localeCompare := compare_collated\<rparr>"

text \<open>
  A third server, whose local time is five hours behind UTC. \<open>new Date\<close> reads a date
  \<open>YYYY-MM-DD\<close> as midnight UTC, which on this server is 7 p.m. of the day before, so
  that \<open>getFullYear\<close> of the first of January is the year before.
\<close>

definition western_getFullYear :: "string \<Rightarrow> int option" where
  "western_getFullYear s =
     (if calendar_date s
      then Some (if drop 5 s = ''01-01'' then calendar_year s - 1 else calendar_year s)
      else None)"

definition western_runtime :: runtime where
  "western_runtime = example_runtime\<lparr>getFullYear := western_getFullYear\<rparr>"

text \<open>An upstream that answers after 120 milliseconds with status 200 and the body \<open>d\<close>.\<close>

definition responds :: "ExternalApiResponse \<Rightarrow> ExternalApiResponse fetch_call" where
  "responds d =
     \<lparr>latency = 120,
      settles = Resolves \<lparr>response_status = 200, response_json = JsonResolves d\<rparr>\<rparr>"

text \<open>
  The scenario of the specification, with its two entries out of order and a third
  entry dated after today; the same upstream answering after 15 seconds; an upstream
  that cannot be reached; and a window that spans two years.
\<close>

definition example_call :: "ExternalApiResponse fetch_call" where
  "example_call =
     responds (Data (JArray [Activity \<lparr>date = ''2024-01-02'', date_is_string = True, count = 0, level = 0\<rparr>,
                             Activity \<lparr>date = ''2024-01-05'', date_is_string = True, count = 7, level = 2\<rparr>,
                             Activity \<lparr>date = ''2024-01-01'', date_is_string = True, count = 2, level = 1\<rparr>])
                    (JObject [(''2023'', 100), (''2024'', 50)]))"

definition slow_call :: "ExternalApiResponse fetch_call" where
  "slow_call = example_call\<lparr>latency := 15000\<rparr>"

definition refused_call :: "ExternalApiResponse fetch_call" where
  "refused_call =
     \<lparr>latency = 40, settles = Rejects (ErrorObject ''TypeError'' ''fetch failed'')\<rparr>"

definition two_year_call :: "ExternalApiResponse fetch_call" where
  "two_year_call =
     responds (Data (JArray [Activity \<lparr>date = ''2024-01-01'', date_is_string = True, count = 2, level = 1\<rparr>,
                             Activity \<lparr>date = ''2023-12-31'', date_is_string = True, count = 4, level = 2\<rparr>])
                    (JObject [(''2023'', 100), (''2024'', 50)]))"

text \<open>
  Two dates that differ in their separators; two counts whose sum no double holds; an
  upstream whose only entry has the date \<open>d\<close>; and an array whose only entry is
  \<open>null\<close>, beside a \<open>total\<close> that is a number.
\<close>

definition separators_call :: "ExternalApiResponse fetch_call" where
  "separators_call =
     responds (Data (JArray [Activity \<lparr>date = ''2024!01!01'', date_is_string = True, count = 1, level = 1\<rparr>,
                             Activity \<lparr>date = ''2024-01-01'', date_is_string = True, count = 2, level = 1\<rparr>])
                    (JObject [(''2024'', 3)]))"

definition large_counts_call :: "ExternalApiResponse fetch_call" where
  "large_counts_call =
     responds (Data (JArray [Activity \<lparr>date = ''2024-01-01'', date_is_string = True, count = 9007199254740992,
                                       level = 4\<rparr>,
                             Activity \<lparr>date = ''2024-01-02'', date_is_string = True, count = 1, level = 1\<rparr>])
                    (JObject [(''2023'', 9007199254740992), (''2024'', 1)]))"

definition new_year_call :: "string \<Rightarrow> ExternalApiResponse fetch_call" where
  "new_year_call d =
     responds (Data (JArray [Activity \<lparr>date = d, date_is_string = True, count = 1, level = 1\<rparr>])
                    (JObject [(''2024'', 1)]))"

definition null_entry_call :: "ExternalApiResponse fetch_call" where
  "null_entry_call = responds (Data (JArray [NullEntry]) (JNumber 5))"

text \<open>
  A browser to evaluate the widget on. Its date formatter prints a calendar date as
  \<open>en-US\<close> does with a long month. Its clock reads 3 January 2024, 00:00:00 UTC, at the
  cache check, and its store holds a record written ten minutes earlier. \<open>JSON.parse\<close>
  and \<open>JSON.stringify\<close> are given on the texts and records of the example. The proxy
  it calls is the route above on the example call.
\<close>

definition month_name :: "nat \<Rightarrow> string" where
  "month_name m =
     [''January'', ''February'', ''March'', ''April'', ''May'', ''June'', ''July'',
      ''August'', ''September'', ''October'', ''November'', ''December''] ! (m - 1)"

definition en_US_long_date :: "string \<Rightarrow> string" where
  "en_US_long_date s =
     (if calendar_date s then
        month_name (number_of_digits (take 2 (drop 5 s))) @ '' ''
        @ string_of_nat (number_of_digits (drop 8 s)) @ '', ''
        @ string_of_nat (number_of_digits (take 4 s))
      else ''Invalid Date'')"

definition example_payload :: ActivityPayload where
  "example_payload =
     \<lparr>contributions = [\<lparr>date = ''2024-01-01'', date_is_string = True, count = 2, level = 1\<rparr>,
                       \<lparr>date = ''2024-01-02'', date_is_string = True, count = 0, level = 0\<rparr>],
      lastYearTotal = 2, allTimeTotal = NumberValue 150, yearRange = ''2024''\<rparr>"

definition stored_record :: CachedData where
  "stored_record =
     \<lparr>data = Payload example_payload, timestamp = 1704239400000, version = Some 2\<rparr>"

definition stored_text :: string where
  "stored_text = ''{\"data\":{\"contributions\":[{\"date\":\"2024-01-01\",\"count\":2,\"level\":1},{\"date\":\"2024-01-02\",\"count\":0,\"level\":0}],\"lastYearTotal\":2,\"allTimeTotal\":150,\"yearRange\":\"2024\"},\"timestamp\":1704239400000,\"version\":2}''"

definition written_record :: CachedData where
  "written_record =
     \<lparr>data = Payload example_payload, timestamp = 1704240000250, version = Some 2\<rparr>"

definition written_text :: string where
  "written_text = ''{\"data\":{\"contributions\":[{\"date\":\"2024-01-01\",\"count\":2,\"level\":1},{\"date\":\"2024-01-02\",\"count\":0,\"level\":0}],\"lastYearTotal\":2,\"allTimeTotal\":150,\"yearRange\":\"2024\"},\"timestamp\":1704240000250,\"version\":2}''"

definition example_JSON_parse :: "string \<Rightarrow> parsed_json" where
  "example_JSON_parse text =
     (if text = stored_text then Parsed stored_record
      else if text = written_text then Parsed written_record
      else if text = ''null'' then ParsedNull
      else ThrowsSyntaxError)"

definition example_JSON_stringify :: "CachedData \<Rightarrow> string" where
  "example_JSON_stringify r =
     (if r = stored_record then stored_text
      else if r = written_record then written_text
      else ''{}'')"

definition example_browser :: browser where
  "example_browser =
     \<lparr>toLocaleDateString = en_US_long_date,
      localStorage = [CACHE_KEY \<mapsto> stored_text],
      getItem_throws = False, setItem_throws = False,
      JSON_parse = example_JSON_parse,
      JSON_stringify = example_JSON_stringify,
      now_at_check = 1704240000000, now_at_write = 1704240000250,
      api_call =
        \<lparr>latency = 180,
         settles = Resolves
           \<lparr>response_status = status (GET example_runtime example_call),
            response_json = JsonResolves (body (GET example_runtime example_call))\<rparr>\<rparr>,
      isMounted = True\<rparr>"

text \<open>The same browser with a store whose text is not JSON.\<close>

definition broken_browser :: browser where
  "broken_browser = example_browser\<lparr>localStorage := [CACHE_KEY \<mapsto> ''{broken'']\<rparr>"

section \<open>Properties of the steps\<close>

lemma status_catch_block_not_200 [simp]: "status (catch_block e) \<noteq> 200"
  by (simp add: catch_block_def)

lemma Object_values_truthy:
  "truthy tv \<Longrightarrow> \<exists>vs. Object_values rt tv = Inr vs"
  by (cases tv) auto

lemma set_activities: "set (activities es) = {c. Activity c \<in> set es}"
  by (induction es rule: activities.induct) auto

lemma count_list_activities: "count_list (activities es) c = count_list es (Activity c)"
  by (induction es rule: activities.induct) auto

lemma Array_filter_Inr:
  "Array_filter rt es = Inr kept \<Longrightarrow>
     kept = filter (\<lambda>c. date c \<le> today rt) (activities es) \<and> NullEntry \<notin> set es"
  by (induction rt es arbitrary: kept rule: Array_filter.induct)
    (auto split: sum.splits if_splits)

lemma Array_filter_no_null:
  "NullEntry \<notin> set es \<Longrightarrow>
     Array_filter rt es = Inr (filter (\<lambda>c. date c \<le> today rt) (activities es))"
  by (induction rt es rule: Array_filter.induct) auto

lemma Array_filter_null:
  "NullEntry \<in> set es \<Longrightarrow>
     Array_filter rt es = Inl (ErrorObject ''TypeError'' (engine_message rt ReadDateOfNull))"
  by (induction rt es rule: Array_filter.induct) auto

lemma sortedContributions_Inr:
  assumes "sortedContributions rt es = Inr s"
  shows "s = Array_sort (\<lambda>a b. localeCompare rt (date a) (date b))
               (filter (\<lambda>c. date c \<le> today rt) (activities es))"
    and "NullEntry \<notin> set es"
proof -
  from assms obtain kept where k: "Array_filter rt es = Inr kept"
    and s: "s = Array_sort (\<lambda>a b. localeCompare rt (date a) (date b)) kept"
    by (auto simp: sortedContributions_def split: sum.splits if_splits)
  from Array_filter_Inr [OF k] s
  show "s = Array_sort (\<lambda>a b. localeCompare rt (date a) (date b))
               (filter (\<lambda>c. date c \<le> today rt) (activities es))"
    and "NullEntry \<notin> set es"
    by simp_all
qed

lemma success_response_200:
  assumes "status (success_response rt es tv) = 200"
  shows "\<exists>s vs. sortedContributions rt es = Inr s \<and> Object_values rt tv = Inr vs \<and>
           body (success_response rt es tv) = Payload (payload_of rt s vs)"
proof (cases "sortedContributions rt es")
  case (Inl e)
  with assms show ?thesis by (simp add: success_response_def)
next
  case (Inr s)
  show ?thesis
  proof (cases "Object_values rt tv")
    case (Inl e)
    with Inr assms show ?thesis by (simp add: success_response_def Let_def)
  next
    case vs: (Inr vs)
    with Inr have "body (success_response rt es tv) = Payload (payload_of rt s vs)"
      by (simp add: success_response_def payload_of_def Let_def)
    with Inr vs show ?thesis by simp
  qed
qed

lemma handle_data_200:
  assumes "status (handle_data rt d) = 200"
  shows "\<exists>es tv. d = Data (JArray es) tv \<and> truthy tv \<and>
           handle_data rt d = success_response rt es tv"
proof (cases d)
  case NullData
  with assms show ?thesis by simp
next
  case (Data c t)
  with assms show ?thesis
    by (cases c) (auto simp: invalid_structure_def split: if_splits)
qed

lemma new_Response_status:
  "new_Response rt b s hs = Inr r \<Longrightarrow> status r = s"
  by (auto simp: new_Response_def split: if_splits)

lemma GET_200:
  assumes "status (GET rt call) = 200"
  shows "\<exists>resp es tv. latency call < FETCH_TIMEOUT \<and> settles call = Resolves resp \<and> ok resp \<and>
           response_json resp = JsonResolves (Data (JArray es) tv) \<and> truthy tv \<and>
           GET rt call = success_response rt es tv"
proof (cases "FETCH_TIMEOUT \<le> latency call")
  case True
  with assms show ?thesis
    by (simp add: GET_def fetch_with_signal_def)
next
  case False
  show ?thesis
  proof (cases "settles call")
    case (Rejects e)
    with False assms show ?thesis
      by (simp add: GET_def fetch_with_signal_def)
  next
    case (Resolves resp)
    show ?thesis
    proof (cases "ok resp")
      case notok: False
      with False Resolves assms show ?thesis
        by (auto simp: GET_def fetch_with_signal_def ok_def
                 split: sum.splits dest: new_Response_status)
    next
      case isok: True
      show ?thesis
      proof (cases "response_json resp")
        case (JsonRejects e)
        with False Resolves isok assms show ?thesis
          by (simp add: GET_def fetch_with_signal_def)
      next
        case (JsonResolves d)
        with False Resolves isok assms have "status (handle_data rt d) = 200"
          and eq: "GET rt call = handle_data rt d"
          by (simp_all add: GET_def fetch_with_signal_def)
        then obtain es tv where "d = Data (JArray es) tv" "truthy tv"
          "handle_data rt d = success_response rt es tv"
          using handle_data_200 by blast
        with False Resolves isok JsonResolves eq show ?thesis
          by auto
      qed
    qed
  qed
qed

lemma set_insert_sorted: "set (insert_sorted cmp x xs) = insert x (set xs)"
  by (induction xs) auto

lemma length_insert_sorted: "length (insert_sorted cmp x xs) = Suc (length xs)"
  by (induction xs) auto

lemma count_list_insert_sorted:
  "count_list (insert_sorted cmp x xs) y = count_list (x # xs) y"
  by (induction xs) auto

lemma sorted_insert_sorted:
  assumes "consistent_comparator cmp"
    and "sorted_wrt (\<lambda>a b. cmp a b \<le> 0) xs"
  shows "sorted_wrt (\<lambda>a b. cmp a b \<le> 0) (insert_sorted cmp x xs)"
  using assms(2)
proof (induction xs)
  case Nil
  then show ?case by simp
next
  case (Cons y ys)
  from assms(1) have total: "\<And>a b. 0 < cmp a b \<Longrightarrow> cmp b a \<le> 0"
    and trans: "\<And>a b c. cmp a b \<le> 0 \<Longrightarrow> cmp b c \<le> 0 \<Longrightarrow> cmp a c \<le> 0"
    unfolding consistent_comparator_def by blast+
  show ?case
  proof (cases "cmp x y \<le> 0")
    case True
    have "cmp x z \<le> 0" if "z \<in> set ys" for z
    proof -
      from Cons.prems that have "cmp y z \<le> 0" by simp
      with True show ?thesis by (rule trans)
    qed
    with True Cons.prems show ?thesis by simp
  next
    case False
    then have "cmp y x \<le> 0" using total [of x y] by linarith
    moreover from Cons have "sorted_wrt (\<lambda>a b. cmp a b \<le> 0) (insert_sorted cmp x ys)"
      by simp
    ultimately show ?thesis
      using False Cons.prems by (simp add: set_insert_sorted)
  qed
qed

lemma set_Array_sort: "set (Array_sort cmp xs) = set xs"
  by (induction xs) (simp_all add: Array_sort_def set_insert_sorted)

lemma length_Array_sort: "length (Array_sort cmp xs) = length xs"
  by (induction xs) (simp_all add: Array_sort_def length_insert_sorted)

lemma count_list_Array_sort: "count_list (Array_sort cmp xs) y = count_list xs y"
  by (induction xs) (simp_all add: Array_sort_def count_list_insert_sorted)

lemma sorted_Array_sort:
  assumes "consistent_comparator cmp"
  shows "sorted_wrt (\<lambda>a b. cmp a b \<le> 0) (Array_sort cmp xs)"
proof (induction xs)
  case Nil
  show ?case by (simp add: Array_sort_def)
next
  case (Cons x xs)
  then have "sorted_wrt (\<lambda>a b. cmp a b \<le> 0) (insert_sorted cmp x (Array_sort cmp xs))"
    by (rule sorted_insert_sorted [OF assms])
  then show ?case by (simp add: Array_sort_def)
qed

lemma consistent_comparator_on_key:
  "consistent_comparator cmp \<Longrightarrow> consistent_comparator (\<lambda>a b. cmp (f a) (f b))"
  unfolding consistent_comparator_def by blast

lemma length_slice_last: "length (slice_last n xs) \<le> n"
  by (simp add: slice_last_def)

lemma set_slice_last: "set (slice_last n xs) \<subseteq> set xs"
  by (simp add: slice_last_def set_drop_subset)

lemma sorted_slice_last: "sorted_wrt P xs \<Longrightarrow> sorted_wrt P (slice_last n xs)"
  by (simp add: slice_last_def sorted_wrt_drop)

lemma slice_last_short: "length xs \<le> n \<Longrightarrow> slice_last n xs = xs"
  by (simp add: slice_last_def)

lemma sorted_lastYearData:
  assumes "consistent_comparator (localeCompare rt)"
  shows "sorted_wrt (\<lambda>a b. localeCompare rt (date a) (date b) \<le> 0)
           (lastYearData (Array_sort (\<lambda>a b. localeCompare rt (date a) (date b)) kept))"
proof -
  have "consistent_comparator (\<lambda>a b. localeCompare rt (date a) (date b))"
    using assms by (rule consistent_comparator_on_key)
  then show ?thesis
    unfolding lastYearData_def
    by (intro sorted_slice_last sorted_Array_sort)
qed

lemma length_lastYearData: "length (lastYearData xs) \<le> 365"
  by (simp add: lastYearData_def length_slice_last)

lemma GET_200_payload:
  assumes "status (GET rt call) = 200"
  shows "\<exists>resp es tv s vs. latency call < FETCH_TIMEOUT \<and> settles call = Resolves resp \<and>
           ok resp \<and> response_json resp = JsonResolves (Data (JArray es) tv) \<and> truthy tv \<and>
           sortedContributions rt es = Inr s \<and> Object_values rt tv = Inr vs \<and>
           body (GET rt call) = Payload (payload_of rt s vs)"
proof -
  from GET_200 [OF assms] obtain resp es tv where
    h: "latency call < FETCH_TIMEOUT" "settles call = Resolves resp" "ok resp"
       "response_json resp = JsonResolves (Data (JArray es) tv)" "truthy tv"
       "GET rt call = success_response rt es tv"
    by blast
  from assms h(6) have "status (success_response rt es tv) = 200" by simp
  from success_response_200 [OF this] obtain s vs where
    "sortedContributions rt es = Inr s" "Object_values rt tv = Inr vs"
    "body (success_response rt es tv) = Payload (payload_of rt s vs)"
    by blast
  with h show ?thesis by auto
qed

lemma GET_200_contributions:
  assumes "status (GET rt call) = 200"
    and "settles call = Resolves resp"
    and "response_json resp = JsonResolves (Data (JArray es) tv)"
  shows "\<exists>p s. body (GET rt call) = Payload p \<and> sortedContributions rt es = Inr s \<and>
           contributions p = lastYearData s"
proof -
  from GET_200_payload [OF assms(1)] obtain resp' es' tv' s vs where
    h: "settles call = Resolves resp'"
       "response_json resp' = JsonResolves (Data (JArray es') tv')"
       "sortedContributions rt es' = Inr s"
       "body (GET rt call) = Payload (payload_of rt s vs)"
    by blast
  from h(1,2) assms(2,3) have "es' = es" by simp
  with h(3,4) show ?thesis
    by (simp add: payload_of_def)
qed

subsection \<open>Sums of doubles\<close>

lemma round_nat_small: "n < 9007199254740992 \<Longrightarrow> round_nat n = n"
  by (subst round_nat_def, subst double_scale.simps) (simp add: Let_def)

lemma round_double_small:
  assumes "\<bar>x\<bar> < 9007199254740992"
  shows "round_double x = x"
proof (cases "x < 0")
  case True
  with assms have "nat (- x) < 9007199254740992" by linarith
  then have "round_nat (nat (- x)) = nat (- x)" by (rule round_nat_small)
  with True show ?thesis by (simp add: round_double_def)
next
  case False
  with assms have "nat x < 9007199254740992" by linarith
  then have "round_nat (nat x) = nat x" by (rule round_nat_small)
  with False show ?thesis by (simp add: round_double_def)
qed

lemma double_plus_exact:
  "\<bar>a + b\<bar> < 9007199254740992 \<Longrightarrow> double_plus a b = a + b"
  by (simp add: double_plus_def round_double_small)

lemma foldl_double_plus:
  "\<bar>a\<bar> + sum_list (map (\<lambda>x. \<bar>f x\<bar>) xs) < 9007199254740992 \<Longrightarrow>
     foldl (\<lambda>sum x. double_plus sum (f x)) a xs = a + sum_list (map f xs)"
proof (induction xs arbitrary: a)
  case Nil
  then show ?case by simp
next
  case (Cons x xs)
  have nonneg: "0 \<le> sum_list (map (\<lambda>x. \<bar>f x\<bar>) xs)"
    by (rule sum_list_nonneg) auto
  from Cons.prems have b: "\<bar>a\<bar> + \<bar>f x\<bar> + sum_list (map (\<lambda>x. \<bar>f x\<bar>) xs) < 9007199254740992"
    by simp
  with nonneg have "\<bar>a + f x\<bar> < 9007199254740992" by linarith
  then have e: "double_plus a (f x) = a + f x" by (rule double_plus_exact)
  from b have "\<bar>a + f x\<bar> + sum_list (map (\<lambda>x. \<bar>f x\<bar>) xs) < 9007199254740992"
    by linarith
  from Cons.IH [OF this] e show ?case by simp
qed

lemma compute_lastYearTotal_sum:
  "sum_list (map (\<lambda>c. \<bar>count c\<bar>) xs) < 9007199254740992 \<Longrightarrow>
     compute_lastYearTotal xs = sum_list (map count xs)"
  using foldl_double_plus [of 0 count xs]
  by (simp add: compute_lastYearTotal_def)

lemma foldl_js_plus_numbers:
  "foldl (\<lambda>sum count. js_plus sum count) (NumberValue a) (map (\<lambda>(k, v). NumberValue v) m)
     = NumberValue (foldl (\<lambda>sum x. double_plus sum (snd x)) a m)"
  by (induction m arbitrary: a) (simp_all add: case_prod_unfold js_plus_def)

lemma compute_allTimeTotal_mapping:
  assumes "Object_values rt (JObject m) = Inr vs"
    and "sum_list (map (\<lambda>x. \<bar>snd x\<bar>) m) < 9007199254740992"
  shows "compute_allTimeTotal vs = NumberValue (sum_list (map snd m))"
proof -
  from assms(1) have "vs = map (\<lambda>(k, v). NumberValue v) m" by simp
  then have "compute_allTimeTotal vs
      = NumberValue (foldl (\<lambda>sum x. double_plus sum (snd x)) 0 m)"
    by (simp add: compute_allTimeTotal_def foldl_js_plus_numbers)
  also have "foldl (\<lambda>sum x. double_plus sum (snd x)) 0 m = 0 + sum_list (map snd m)"
    using assms(2) by (intro foldl_double_plus) simp
  finally show ?thesis by simp
qed

lemma round_double_tie: "double_plus 9007199254740992 1 = 9007199254740992"
  by (simp add: double_plus_def round_double_def round_nat_def double_scale.simps Let_def)

subsection \<open>The year range\<close>

lemma less_ten_cases:
  "(k::nat) < 10 \<Longrightarrow>
     k = 0 \<or> k = 1 \<or> k = 2 \<or> k = 3 \<or> k = 4 \<or> k = 5 \<or> k = 6 \<or> k = 7 \<or> k = 8 \<or> k = 9"
  by (simp add: numeral_eq_Suc less_Suc_eq)

lemma of_char_digit_char: "k < 10 \<Longrightarrow> (of_char (digit_char k) :: nat) = 48 + k"
  by (drule less_ten_cases) (elim disjE; simp add: digit_char_def)

lemma digit_char_digit_value:
  assumes "is_digit c"
  shows "digit_char (digit_value c) = c" and "digit_value c < 10"
proof -
  from assms have b: "48 \<le> (of_char c :: nat)" "(of_char c :: nat) \<le> 57"
    by (simp_all add: is_digit_def less_eq_char_def)
  then show k: "digit_value c < 10"
    by (simp add: digit_value_def)
  from of_char_digit_char [OF k] b
  have "(of_char (digit_char (digit_value c)) :: nat) = of_char c"
    by (simp add: digit_value_def)
  then show "digit_char (digit_value c) = c"
    by (simp only: of_char_eq_iff)
qed

lemma string_of_nat_snoc:
  assumes "d < 10" and "0 < m"
  shows "string_of_nat (10 * m + d) = string_of_nat m @ [digit_char d]"
proof -
  have "\<not> 10 * m + d < 10" using assms by simp
  moreover have "(10 * m + d) div 10 = m" using assms by simp
  moreover have "digit_char (10 * m + d) = digit_char d"
    using assms by (simp add: digit_char_def)
  ultimately show ?thesis
    by (subst string_of_nat.simps) simp
qed

lemma string_of_nat_digit: "n < 10 \<Longrightarrow> string_of_nat n = [digit_char n]"
  by (subst string_of_nat.simps) simp

lemma string_of_four_digits:
  assumes "is_digit a" "is_digit b" "is_digit c" "is_digit d"
    and "1000 \<le> number_of_digits [a, b, c, d]"
  shows "string_of_nat (number_of_digits [a, b, c, d]) = [a, b, c, d]"
proof -
  note va = digit_char_digit_value [OF assms(1)]
  note vb = digit_char_digit_value [OF assms(2)]
  note vc = digit_char_digit_value [OF assms(3)]
  note vd = digit_char_digit_value [OF assms(4)]
  have n: "number_of_digits [a, b, c, d]
      = 10 * (10 * (10 * digit_value a + digit_value b) + digit_value c) + digit_value d"
    by (simp add: number_of_digits_def)
  have pa: "0 < digit_value a"
  proof (rule ccontr)
    assume "\<not> 0 < digit_value a"
    then have z: "digit_value a = 0" by simp
    define x where "x = 10 * digit_value b + digit_value c"
    have "x \<le> 99" using vb(2) vc(2) by (simp add: x_def)
    then have "10 * x + digit_value d \<le> 999" using vd(2) by linarith
    moreover have "number_of_digits [a, b, c, d] = 10 * x + digit_value d"
      by (simp add: n z x_def)
    ultimately show False using assms(5) by linarith
  qed
  then have p1: "0 < 10 * digit_value a + digit_value b" by simp
  then have p2: "0 < 10 * (10 * digit_value a + digit_value b) + digit_value c" by simp
  have "string_of_nat (number_of_digits [a, b, c, d])
      = string_of_nat (10 * (10 * digit_value a + digit_value b) + digit_value c)
        @ [digit_char (digit_value d)]"
    unfolding n using vd(2) p2 by (rule string_of_nat_snoc)
  also have "string_of_nat (10 * (10 * digit_value a + digit_value b) + digit_value c)
      = string_of_nat (10 * digit_value a + digit_value b) @ [digit_char (digit_value c)]"
    using vc(2) p1 by (rule string_of_nat_snoc)
  also have "string_of_nat (10 * digit_value a + digit_value b)
      = string_of_nat (digit_value a) @ [digit_char (digit_value b)]"
    using vb(2) pa by (rule string_of_nat_snoc)
  also have "string_of_nat (digit_value a) = [digit_char (digit_value a)]"
    using va(2) by (rule string_of_nat_digit)
  finally show ?thesis
    by (simp add: va(1) vb(1) vc(1) vd(1))
qed

lemma calendar_year_toString:
  assumes "calendar_date s" and "1000 \<le> calendar_year s"
  shows "Number_toString (calendar_year s) = take 4 s" and "is_YYYY (take 4 s)"
proof -
  from assms(1) have len: "length s = 10"
    and dig: "list_all is_digit (take 4 s)"
    by (simp_all add: calendar_date_def)
  from len obtain a b c d r where s: "s = a # b # c # d # r"
    by (auto simp: numeral_eq_Suc length_Suc_conv)
  then have t: "take 4 s = [a, b, c, d]" by simp
  from dig t have d4: "is_digit a" "is_digit b" "is_digit c" "is_digit d" by simp_all
  from assms(2) t have "1000 \<le> number_of_digits [a, b, c, d]"
    by (simp add: calendar_year_def)
  from string_of_four_digits [OF d4 this] t
  show "Number_toString (calendar_year s) = take 4 s"
    by (simp add: Number_toString_def calendar_year_def)
  from t d4 show "is_YYYY (take 4 s)"
    by (simp add: is_YYYY_def)
qed

lemma yearRange_form_single: "is_YYYY s \<Longrightarrow> yearRange_form s"
  by (simp add: yearRange_form_def)

lemma yearRange_form_pair:
  "is_YYYY a \<Longrightarrow> is_YYYY b \<Longrightarrow> yearRange_form (a @ '' - '' @ b)"
  by (simp add: yearRange_form_def is_YYYY_def)

lemma compute_yearRange_nonempty:
  assumes "kept \<noteq> []"
  shows "compute_yearRange rt kept =
           (if strict_equal (getFullYear rt (date (hd kept))) (getFullYear rt (date (last kept)))
            then year_toString (getFullYear rt (date (hd kept)))
            else year_toString (getFullYear rt (date (hd kept))) @ '' - ''
                 @ year_toString (getFullYear rt (date (last kept))))"
  using assms by (simp add: compute_yearRange_def Let_def hd_conv_nth last_conv_nth)

lemma compute_yearRange_calendar:
  assumes "kept \<noteq> []"
    and "calendar_date (date (hd kept))" "1000 \<le> calendar_year (date (hd kept))"
    and "calendar_date (date (last kept))" "1000 \<le> calendar_year (date (last kept))"
    and "getFullYear rt (date (hd kept)) = Some (calendar_year (date (hd kept)))"
    and "getFullYear rt (date (last kept)) = Some (calendar_year (date (last kept)))"
  shows "compute_yearRange rt kept =
           (if calendar_year (date (hd kept)) = calendar_year (date (last kept))
            then take 4 (date (hd kept))
            else take 4 (date (hd kept)) @ '' - '' @ take 4 (date (last kept)))"
    and "yearRange_form (compute_yearRange rt kept)"
proof -
  note h = calendar_year_toString [OF assms(2,3)]
  note l = calendar_year_toString [OF assms(4,5)]
  show e: "compute_yearRange rt kept =
           (if calendar_year (date (hd kept)) = calendar_year (date (last kept))
            then take 4 (date (hd kept))
            else take 4 (date (hd kept)) @ '' - '' @ take 4 (date (last kept)))"
  proof (cases "calendar_year (date (hd kept)) = calendar_year (date (last kept))")
    case True
    then show ?thesis
      using h(1) by (simp add: compute_yearRange_nonempty [OF assms(1)] assms(6,7))
  next
    case False
    then show ?thesis
      by (simp add: compute_yearRange_nonempty [OF assms(1)] assms(6,7) h(1) l(1))
  qed
  show "yearRange_form (compute_yearRange rt kept)"
  proof (cases "calendar_year (date (hd kept)) = calendar_year (date (last kept))")
    case True
    with e h(2) show ?thesis by (simp add: yearRange_form_single)
  next
    case False
    with e have "compute_yearRange rt kept
        = take 4 (date (hd kept)) @ '' - '' @ take 4 (date (last kept))"
      by simp
    with yearRange_form_pair [OF h(2) l(2)] show ?thesis by simp
  qed
qed

subsection \<open>The entries kept\<close>

lemma count_list_filter:
  "count_list (filter P xs) y = (if P y then count_list xs y else 0)"
  by (induction xs) auto

lemma count_list_sortedContributions:
  assumes "sortedContributions rt es = Inr s"
  shows "count_list s c = (if date c \<le> today rt then count_list es (Activity c) else 0)"
  by (simp add: sortedContributions_Inr(1) [OF assms] count_list_Array_sort count_list_filter
      count_list_activities)

lemma set_sortedContributions:
  assumes "sortedContributions rt es = Inr s"
  shows "set s = {c. Activity c \<in> set es \<and> date c \<le> today rt}"
  by (auto simp: sortedContributions_Inr(1) [OF assms] set_Array_sort set_activities)

lemma length_sortedContributions:
  assumes "sortedContributions rt es = Inr s"
  shows "length s = length (filter (\<lambda>c. date c \<le> today rt) (activities es))"
  by (simp add: sortedContributions_Inr(1) [OF assms] length_Array_sort)

lemma set_lastYearData: "set (lastYearData s) \<subseteq> set s"
  by (simp add: lastYearData_def set_slice_last)

subsection \<open>The cache check of the widget\<close>

lemma cache_check_None_iff:
  "(cache_check env = None) =
     (case cached_text env of
        None \<Rightarrow> True
      | Some cached \<Rightarrow>
          (case JSON_parse env cached of
             ThrowsSyntaxError \<Rightarrow> True
           | ParsedNull \<Rightarrow> True
           | Parsed parsed \<Rightarrow>
               version parsed \<noteq> Some CACHE_VERSION
               \<or> CACHE_TTL \<le> now_at_check env - timestamp parsed))"
  by (auto simp: cache_check_def split: option.splits parsed_json.splits)

lemma fetch_calls_fetch_failed [simp]: "fetch_calls (fetch_failed env err) = 1"
  by (simp add: fetch_failed_def)

lemma fetch_calls_fetch_succeeded [simp]: "fetch_calls (fetch_succeeded env result) = 1"
  by (simp add: fetch_succeeded_def Let_def)

lemma fetch_calls_live_fetch: "fetch_calls (live_fetch env) = 1"
  by (simp add: live_fetch_def split: settled.splits json_result.splits)

lemma fetch_calls_fetchData:
  "fetch_calls (fetchData env) = (if cache_check env = None then 1 else 0)"
  by (auto simp: fetchData_def fetch_calls_live_fetch split: option.splits)

lemma final_state_fetch_failed_storage:
  "final_state (fetch_failed (env\<lparr>localStorage := m\<rparr>) err) = final_state (fetch_failed env err)"
  by (simp add: fetch_failed_def)

lemma final_state_fetch_succeeded_storage:
  "final_state (fetch_succeeded (env\<lparr>localStorage := m\<rparr>) result)
     = final_state (fetch_succeeded env result)"
  by (simp add: fetch_succeeded_def Let_def)

lemma final_state_live_fetch_storage:
  "final_state (live_fetch (env\<lparr>localStorage := m\<rparr>)) = final_state (live_fetch env)"
  by (simp add: live_fetch_def final_state_fetch_failed_storage
      final_state_fetch_succeeded_storage split: settled.splits json_result.splits)

lemma fetchData_empty_storage:
  "fetchData (env\<lparr>localStorage := Map.empty\<rparr>) = live_fetch (env\<lparr>localStorage := Map.empty\<rparr>)"
  by (simp add: fetchData_def cache_check_def cached_text_def)

lemma falsy_cases:
  "(\<not> truthy t) = (t = JUndefined \<or> t = JNull \<or> t = JBoolean False \<or> t = JNumber 0 \<or> t = JString [])"
  by (cases t) auto

lemma status_catch_block_not_502 [simp]: "status (catch_block e) \<noteq> 502"
  by (simp add: catch_block_def)

lemma status_success_response_not_502: "status (success_response rt es tv) \<noteq> 502"
  by (simp add: success_response_def Let_def split: sum.splits)


section \<open>The examples, evaluated\<close>

lemma consistent_compare_strings: "consistent_comparator compare_strings"
  unfolding consistent_comparator_def compare_strings_def
  by (auto split: if_splits)

lemmas evaluate_GET =
  GET_def responds_def example_runtime_def fetch_with_signal_def
  FETCH_TIMEOUT_def ok_def success_response_def lastYearData_def
  sortedContributions_def Array_sort_def slice_last_def compare_strings_def
  compute_yearRange_def compute_lastYearTotal_def compute_allTimeTotal_def
  utc_getFullYear_def calendar_date_def is_digit_def number_of_digits_def
  digit_value_def days_in_month_def leap_year_def Number_toString_def
  string_of_nat.simps digit_char_def catch_block_def json_headers_def Let_def
  calendar_year_def double_plus_def round_double_def round_nat_def double_scale.simps
  js_plus_def

lemma GET_example:
  "GET example_runtime example_call =
     \<lparr>status = 200,
      headers = [(''Content-Type'', ''application/json''),
                 (''Cache-Control'', ''public, max-age=3600, s-maxage=3600'')],
      body = Payload example_payload\<rparr>"
  by (simp add: example_call_def example_payload_def evaluate_GET)

lemma settles_example_call:
  "settles example_call = Resolves
     \<lparr>response_status = 200,
      response_json = JsonResolves
        (Data (JArray [Activity \<lparr>date = ''2024-01-02'', date_is_string = True, count = 0, level = 0\<rparr>,
                       Activity \<lparr>date = ''2024-01-05'', date_is_string = True, count = 7, level = 2\<rparr>,
                       Activity \<lparr>date = ''2024-01-01'', date_is_string = True, count = 2, level = 1\<rparr>])
              (JObject [(''2023'', 100), (''2024'', 50)]))\<rparr>"
  by (simp add: example_call_def responds_def)

lemma GET_two_year_call:
  "GET example_runtime two_year_call =
     \<lparr>status = 200,
      headers = [(''Content-Type'', ''application/json''),
                 (''Cache-Control'', ''public, max-age=3600, s-maxage=3600'')],
      body = Payload
        \<lparr>contributions = [\<lparr>date = ''2023-12-31'', date_is_string = True, count = 4, level = 2\<rparr>,
                           \<lparr>date = ''2024-01-01'', date_is_string = True, count = 2, level = 1\<rparr>],
         lastYearTotal = 6, allTimeTotal = NumberValue 150, yearRange = ''2023 - 2024''\<rparr>\<rparr>"
  by (simp add: two_year_call_def evaluate_GET)

lemma settles_two_year_call:
  "settles two_year_call = Resolves
     \<lparr>response_status = 200,
      response_json = JsonResolves
        (Data (JArray [Activity \<lparr>date = ''2024-01-01'', date_is_string = True, count = 2, level = 1\<rparr>,
                       Activity \<lparr>date = ''2023-12-31'', date_is_string = True, count = 4, level = 2\<rparr>])
              (JObject [(''2023'', 100), (''2024'', 50)]))\<rparr>"
  by (simp add: two_year_call_def responds_def)

lemma stored_record_neq_written_record: "written_record \<noteq> stored_record"
  by (simp add: stored_record_def written_record_def)

lemma cached_text_example_browser: "cached_text example_browser = Some stored_text"
  by (simp add: cached_text_def example_browser_def CACHE_KEY_def stored_text_def)

lemma cached_text_broken_browser: "cached_text broken_browser = Some ''{broken''"
  by (simp add: cached_text_def example_browser_def broken_browser_def CACHE_KEY_def)

lemma JSON_parse_example_browser:
  "JSON_parse example_browser stored_text = Parsed stored_record"
  "JSON_parse broken_browser ''{broken'' = ThrowsSyntaxError"
  by (simp_all add: example_browser_def broken_browser_def example_JSON_parse_def
      stored_text_def written_text_def)

lemma stored_record_fresh:
  "version stored_record = Some CACHE_VERSION"
  "now_at_check example_browser - timestamp stored_record < CACHE_TTL"
  by (simp_all add: stored_record_def CACHE_VERSION_def CACHE_TTL_def example_browser_def)

lemma cache_check_example_browser: "cache_check example_browser = Some stored_record"
  by (simp add: cache_check_def cached_text_example_browser JSON_parse_example_browser
      stored_record_fresh)

lemma cache_check_broken_browser: "cache_check broken_browser = None"
  by (simp add: cache_check_def cached_text_broken_browser JSON_parse_example_browser)

lemma fetchData_example_browser:
  "fetchData example_browser =
     \<lparr>final_state = \<lparr>state_data = Some (Payload example_payload), state_status = Success,
                      state_error = None\<rparr>,
      final_storage = [CACHE_KEY \<mapsto> stored_text], fetch_calls = 0, setItem_calls = []\<rparr>"
  by (simp add: fetchData_def cache_check_example_browser)
    (simp add: stored_record_def example_browser_def)

lemma fetchData_broken_browser:
  "fetchData broken_browser =
     \<lparr>final_state = \<lparr>state_data = Some (Payload example_payload), state_status = Success,
                      state_error = None\<rparr>,
      final_storage = [CACHE_KEY \<mapsto> written_text], fetch_calls = 1,
      setItem_calls = [(CACHE_KEY, written_text)]\<rparr>"
  by (simp add: fetchData_def cache_check_broken_browser)
    (simp add: live_fetch_def fetch_succeeded_def fetch_with_signal_def FETCH_TIMEOUT_def
      ok_def broken_browser_def example_browser_def GET_example example_JSON_stringify_def
      written_record_def [symmetric] CACHE_VERSION_def stored_record_neq_written_record Let_def)

section \<open>The specification's claims\<close>

text \<open>
  C1, as amended. For every upstream response that passes the structure check of the
  proxy and is answered with 200, the contributions of the response are at most 365 and
  are sorted in the order of \<open>localeCompare\<close>, the comparison the route sorts by (taken
  to be a comparison function that a sort can follow); they are ascending by date
  string whenever \<open>localeCompare\<close> orders the returned dates as their character codes
  do.
\<close>

theorem contributions_sorted_and_bounded:
  assumes "consistent_comparator (localeCompare rt)"
    and "status (GET rt call) = 200"
  shows "\<exists>p. body (GET rt call) = Payload p \<and>
           sorted_wrt (\<lambda>a b. localeCompare rt (date a) (date b) \<le> 0) (contributions p) \<and>
           length (contributions p) \<le> 365 \<and>
           ((\<forall>a \<in> set (contributions p). \<forall>b \<in> set (contributions p).
                (localeCompare rt (date a) (date b) \<le> 0) = (date a \<le> date b))
              \<longrightarrow> sorted (map date (contributions p)))"
proof -
  from GET_200_payload [OF assms(2)] obtain es s vs where
    b: "body (GET rt call) = Payload (payload_of rt s vs)"
    and e: "sortedContributions rt es = Inr s"
    by blast
  let ?p = "payload_of rt s vs"
  have c: "contributions ?p = lastYearData s"
    by (simp add: payload_of_def)
  have "sorted_wrt (\<lambda>a b. localeCompare rt (date a) (date b) \<le> 0) (lastYearData s)"
    unfolding sortedContributions_Inr(1) [OF e]
    by (rule sorted_lastYearData [OF assms(1)])
  then have s: "sorted_wrt (\<lambda>a b. localeCompare rt (date a) (date b) \<le> 0) (contributions ?p)"
    by (simp add: c)
  have l: "length (contributions ?p) \<le> 365"
    using c length_lastYearData [of s] by simp
  have d: "sorted (map date (contributions ?p))"
    if agree: "\<forall>a \<in> set (contributions ?p). \<forall>b \<in> set (contributions ?p).
                (localeCompare rt (date a) (date b) \<le> 0) = (date a \<le> date b)"
  proof -
    have "sorted_wrt (\<lambda>a b. date a \<le> date b) (contributions ?p)"
      by (rule sorted_wrt_mono_rel [OF _ s]) (simp add: agree)
    then show ?thesis
      by (simp add: sorted_wrt_map)
  qed
  from b s l d show ?thesis by blast
qed

theorem contributions_sorted_and_bounded_witness:
  "consistent_comparator (localeCompare example_runtime) \<and>
   status (GET example_runtime example_call) = 200 \<and>
   (\<exists>p. body (GET example_runtime example_call) = Payload p \<and>
        map date (contributions p) = [''2024-01-01'', ''2024-01-02''] \<and>
        sorted (map date (contributions p)) \<and>
        length (contributions p) \<le> 365)"
proof -
  have c: "consistent_comparator (localeCompare example_runtime)"
    by (simp add: example_runtime_def consistent_compare_strings)
  have s: "status (GET example_runtime example_call) = 200"
    by (simp add: GET_example)
  from contributions_sorted_and_bounded [OF c s] obtain p where
    p: "body (GET example_runtime example_call) = Payload p"
       "length (contributions p) \<le> 365"
    by blast
  from p(1) have "map date (contributions p) = [''2024-01-01'', ''2024-01-02'']"
    by (auto simp: GET_example example_payload_def)
  with c s p show ?thesis by simp
qed

text \<open>
  C1 as the specification states it fails: a collation that puts the hyphen before the
  exclamation mark returns \<open>2024-01-01\<close> before \<open>2024!01!01\<close>, which is not ascending
  by date string.
\<close>

theorem collation_breaks_date_order:
  "status (GET collating_runtime separators_call) = 200 \<and>
   map date (returned_contributions (GET collating_runtime separators_call))
     = [''2024-01-01'', ''2024!01!01''] \<and>
   \<not> sorted [''2024-01-01'', ''2024!01!01'']"
  by (simp add: collating_runtime_def separators_call_def compare_collated_def
      collation_key_def returned_contributions_def evaluate_GET)

text \<open>
  C2, as amended. In every 200 response \<open>lastYearTotal\<close> is the sum of \<open>count\<close> over the
  returned contributions, and \<open>allTimeTotal\<close> is the sum of all values of the upstream
  \<open>total\<close> mapping, whatever the window of 365 entries kept, as long as the absolute
  values added stay below \<open>2^53\<close> in sum, the range in which the addition of doubles is
  exact.
\<close>

theorem totals_are_exact_sums:
  assumes "status (GET rt call) = 200"
  shows "\<exists>p. body (GET rt call) = Payload p \<and>
           (sum_list (map (\<lambda>c. \<bar>count c\<bar>) (contributions p)) < 9007199254740992 \<longrightarrow>
              lastYearTotal p = sum_list (map count (contributions p))) \<and>
           (\<forall>resp c m. settles call = Resolves resp \<longrightarrow>
                response_json resp = JsonResolves (Data c (JObject m)) \<longrightarrow>
                sum_list (map (\<lambda>x. \<bar>snd x\<bar>) m) < 9007199254740992 \<longrightarrow>
                allTimeTotal p = NumberValue (sum_list (map snd m)))"
proof -
  from GET_200_payload [OF assms] obtain resp es tv s vs where
    h: "settles call = Resolves resp"
       "response_json resp = JsonResolves (Data (JArray es) tv)"
       "Object_values rt tv = Inr vs"
       "body (GET rt call) = Payload (payload_of rt s vs)"
    by blast
  let ?p = "payload_of rt s vs"
  have a: "lastYearTotal ?p = sum_list (map count (contributions ?p))"
    if "sum_list (map (\<lambda>c. \<bar>count c\<bar>) (contributions ?p)) < 9007199254740992"
    using that by (simp add: payload_of_def compute_lastYearTotal_sum)
  have b: "allTimeTotal ?p = NumberValue (sum_list (map snd m))"
    if "settles call = Resolves resp'" "response_json resp' = JsonResolves (Data c (JObject m))"
      "sum_list (map (\<lambda>x. \<bar>snd x\<bar>) m) < 9007199254740992"
    for resp' c m
  proof -
    from that(1,2) h(1,2) have "tv = JObject m" by simp
    with h(3) that(3) show ?thesis
      by (simp add: payload_of_def compute_allTimeTotal_mapping)
  qed
  from h(4) a b show ?thesis by blast
qed

theorem totals_are_exact_sums_witness:
  "status (GET example_runtime example_call) = 200 \<and>
   (\<exists>p. body (GET example_runtime example_call) = Payload p \<and>
        sum_list (map (\<lambda>c. \<bar>count c\<bar>) (contributions p)) < 9007199254740992 \<and>
        lastYearTotal p = 2 \<and> sum_list (map count (contributions p)) = 2 \<and>
        allTimeTotal p = NumberValue 150)"
  using totals_are_exact_sums [of example_runtime example_call]
  by (simp add: GET_example example_payload_def)

text \<open>
  C2 as the specification states it fails: for the counts \<open>2^53\<close> and 1 the route
  returns \<open>2^53\<close> as \<open>lastYearTotal\<close> and as \<open>allTimeTotal\<close>, not their sum.
\<close>

theorem large_counts_are_rounded:
  "GET example_runtime large_counts_call =
     \<lparr>status = 200,
      headers = [(''Content-Type'', ''application/json''),
                 (''Cache-Control'', ''public, max-age=3600, s-maxage=3600'')],
      body = Payload
        \<lparr>contributions = [\<lparr>date = ''2024-01-01'', date_is_string = True, count = 9007199254740992, level = 4\<rparr>,
                           \<lparr>date = ''2024-01-02'', date_is_string = True, count = 1, level = 1\<rparr>],
         lastYearTotal = 9007199254740992, allTimeTotal = NumberValue 9007199254740992,
         yearRange = ''2024''\<rparr>\<rparr> \<and>
   sum_list (map count [\<lparr>date = ''2024-01-01'', date_is_string = True, count = 9007199254740992, level = 4\<rparr>,
                        \<lparr>date = ''2024-01-02'', date_is_string = True, count = 1, level = 1\<rparr>])
     = 9007199254740993"
  by (simp add: large_counts_call_def evaluate_GET)

text \<open>
  C3, as amended. For an upstream body other than \<open>null\<close> that arrives in time with an
  \<open>ok\<close> status: when \<open>contributions\<close> is absent or anything else that is not an array,
  or \<open>total\<close> is absent or another falsy value (\<open>null\<close>, \<open>false\<close>, \<open>0\<close>, the empty
  string), the proxy returns status 502 with the body
  \<^verbatim>\<open>{ error: "Invalid data structure from GitHub API" }\<close>, and so no 200 payload.
\<close>

theorem structure_check:
  assumes "latency call < FETCH_TIMEOUT"
    and "settles call = Resolves resp"
    and "ok resp"
    and "response_json resp = JsonResolves (Data c t)"
    and "\<not> Array_isArray c \<or> t = JUndefined \<or> t = JNull \<or> t = JBoolean False
           \<or> t = JNumber 0 \<or> t = JString []"
  shows "GET rt call =
           \<lparr>status = 502, headers = [(''Content-Type'', ''application/json'')],
            body = ErrorBody ''Invalid data structure from GitHub API''\<rparr>"
proof -
  have g: "GET rt call = handle_data rt (Data c t)"
    using assms(1-4) by (simp add: GET_def fetch_with_signal_def)
  from assms(5) have "\<not> (Array_isArray c \<and> truthy t)"
    by (auto simp: falsy_cases)
  then have "handle_data rt (Data c t) = invalid_structure"
    by (cases c) auto
  with g show ?thesis
    by (simp add: invalid_structure_def json_headers_def)
qed

theorem structure_check_witness:
  "latency (responds (Data JUndefined (JObject [(''2024'', 50)]))) < FETCH_TIMEOUT \<and>
   GET example_runtime (responds (Data JUndefined (JObject [(''2024'', 50)]))) =
     \<lparr>status = 502, headers = [(''Content-Type'', ''application/json'')],
      body = ErrorBody ''Invalid data structure from GitHub API''\<rparr> \<and>
   GET example_runtime (responds (Data (JArray []) JNull)) =
     \<lparr>status = 502, headers = [(''Content-Type'', ''application/json'')],
      body = ErrorBody ''Invalid data structure from GitHub API''\<rparr>"
  using structure_check [where call = "responds (Data JUndefined (JObject [(''2024'', 50)]))"
      and rt = example_runtime and c = JUndefined and t = "JObject [(''2024'', 50)]"
      and resp = "\<lparr>response_status = 200,
        response_json = JsonResolves (Data JUndefined (JObject [(''2024'', 50)]))\<rparr>"]
    structure_check [where call = "responds (Data (JArray []) JNull)"
      and rt = example_runtime and c = "JArray []" and t = JNull
      and resp = "\<lparr>response_status = 200,
        response_json = JsonResolves (Data (JArray []) JNull)\<rparr>"]
  by (simp add: responds_def FETCH_TIMEOUT_def ok_def)

text \<open>
  C3 as the specification states it fails: a \<open>total\<close> that is the number 5 is not a
  mapping, and the proxy answers 200 beside an empty array and 500 beside an array that
  holds \<open>null\<close>; and for the body \<open>null\<close>, which has no \<open>contributions\<close>, it answers
  500.
\<close>

theorem truthy_unmapped_total_passes:
  "\<not> is_mapping (JNumber 5) \<and>
   GET example_runtime (responds (Data (JArray []) (JNumber 5))) =
     \<lparr>status = 200,
      headers = [(''Content-Type'', ''application/json''),
                 (''Cache-Control'', ''public, max-age=3600, s-maxage=3600'')],
      body = Payload \<lparr>contributions = [], lastYearTotal = 0,
                       allTimeTotal = NumberValue 0, yearRange = ''''\<rparr>\<rparr> \<and>
   GET example_runtime null_entry_call =
     \<lparr>status = 500, headers = [(''Content-Type'', ''application/json'')],
      body = ErrorBody ''engine message''\<rparr> \<and>
   GET example_runtime (responds NullData) =
     \<lparr>status = 500, headers = [(''Content-Type'', ''application/json'')],
      body = ErrorBody ''engine message''\<rparr>"
  by (simp add: is_mapping_def null_entry_call_def evaluate_GET)

text \<open>
  C4. No entry of the upstream contributions dated strictly after the current date
  appears in the returned contributions, and the filter removes no entry dated on or
  before it: the filtered and sorted list holds every such entry as often as the
  upstream does, the returned list is its last 365 entries, and is all of it when
  there are at most 365.
\<close>

theorem future_entries_excluded:
  assumes "status (GET rt call) = 200"
    and "settles call = Resolves resp"
    and "response_json resp = JsonResolves (Data (JArray es) tv)"
  shows "\<exists>p s. body (GET rt call) = Payload p \<and> sortedContributions rt es = Inr s \<and>
           (\<forall>c \<in> set (contributions p). Activity c \<in> set es \<and> \<not> today rt < date c) \<and>
           contributions p = slice_last 365 s \<and>
           (\<forall>c. \<not> today rt < date c \<longrightarrow> count_list s c = count_list es (Activity c)) \<and>
           (length (filter (\<lambda>c. \<not> today rt < date c) (activities es)) \<le> 365 \<longrightarrow>
              (\<forall>c. \<not> today rt < date c \<longrightarrow>
                   count_list (contributions p) c = count_list es (Activity c)))"
proof -
  from GET_200_contributions [OF assms] obtain p s where
    p: "body (GET rt call) = Payload p" "contributions p = lastYearData s"
    and s: "sortedContributions rt es = Inr s"
    by blast
  have a: "\<forall>c \<in> set (contributions p). Activity c \<in> set es \<and> \<not> today rt < date c"
    using set_lastYearData [of s] p(2) set_sortedContributions [OF s] by auto
  have b: "contributions p = slice_last 365 s"
    using p(2) by (simp add: lastYearData_def)
  have c: "\<forall>c. \<not> today rt < date c \<longrightarrow> count_list s c = count_list es (Activity c)"
    by (simp add: count_list_sortedContributions [OF s] not_less)
  have d: "\<forall>c. \<not> today rt < date c \<longrightarrow>
             count_list (contributions p) c = count_list es (Activity c)"
    if "length (filter (\<lambda>c. \<not> today rt < date c) (activities es)) \<le> 365"
  proof -
    from that have "length s \<le> 365"
      by (simp add: length_sortedContributions [OF s] not_less)
    then have "contributions p = s"
      using b by (simp add: slice_last_short)
    with c show ?thesis by simp
  qed
  from p(1) s a b c d show ?thesis by blast
qed

theorem future_entries_excluded_witness:
  "status (GET example_runtime example_call) = 200 \<and>
   today example_runtime < ''2024-01-05'' \<and>
   (\<exists>p. body (GET example_runtime example_call) = Payload p \<and>
        map date (contributions p) = [''2024-01-01'', ''2024-01-02''] \<and>
        count_list (contributions p) \<lparr>date = ''2024-01-01'', date_is_string = True, count = 2, level = 1\<rparr> = 1)"
proof -
  have s: "status (GET example_runtime example_call) = 200"
    by (simp add: GET_example)
  from future_entries_excluded [OF s settles_example_call] obtain p where
    p: "body (GET example_runtime example_call) = Payload p"
    by force
  then have "map date (contributions p) = [''2024-01-01'', ''2024-01-02'']"
    and "count_list (contributions p) \<lparr>date = ''2024-01-01'', date_is_string = True, count = 2, level = 1\<rparr> = 1"
    by (auto simp: GET_example example_payload_def)
  moreover have "today example_runtime < ''2024-01-05''"
    by (simp add: example_runtime_def)
  ultimately show ?thesis using s p by simp
qed

text \<open>
  C5. On mount the widget calls the proxy if and only if the cached record is absent
  (no text under the key, an empty text, or a store that cannot be read), fails to
  parse as JSON, has a version tag other than the compiled-in one (or none that can be
  read, as the value \<open>null\<close>), or is at least one hour old. A record that is present,
  parses, has the version and is younger than one hour makes the widget go to
  \<open>success\<close> with the cached data and without a network call. A cached text that does
  not parse leaves the widget in the state it reaches with an empty store, so it never
  causes the error state by itself.
\<close>

theorem fetch_iff_no_fresh_cache:
  "(fetch_calls (fetchData env) = 1) =
     (case cached_text env of
        None \<Rightarrow> True
      | Some cached \<Rightarrow>
          (case JSON_parse env cached of
             ThrowsSyntaxError \<Rightarrow> True
           | ParsedNull \<Rightarrow> True
           | Parsed parsed \<Rightarrow>
               version parsed \<noteq> Some CACHE_VERSION
               \<or> CACHE_TTL \<le> now_at_check env - timestamp parsed)) \<and>
   (\<forall>cached parsed.
      cached_text env = Some cached \<longrightarrow> JSON_parse env cached = Parsed parsed \<longrightarrow>
      version parsed = Some CACHE_VERSION \<longrightarrow>
      now_at_check env - timestamp parsed < CACHE_TTL \<longrightarrow>
      fetch_calls (fetchData env) = 0 \<and>
      final_state (fetchData env) =
        \<lparr>state_data = Some (data parsed), state_status = Success, state_error = None\<rparr>) \<and>
   (\<forall>cached.
      cached_text env = Some cached \<longrightarrow> JSON_parse env cached = ThrowsSyntaxError \<longrightarrow>
      fetch_calls (fetchData env) = 1 \<and>
      final_state (fetchData env)
        = final_state (fetchData (env\<lparr>localStorage := Map.empty\<rparr>)))"
proof (intro conjI allI impI)
  show "(fetch_calls (fetchData env) = 1) =
     (case cached_text env of
        None \<Rightarrow> True
      | Some cached \<Rightarrow>
          (case JSON_parse env cached of
             ThrowsSyntaxError \<Rightarrow> True
           | ParsedNull \<Rightarrow> True
           | Parsed parsed \<Rightarrow>
               version parsed \<noteq> Some CACHE_VERSION
               \<or> CACHE_TTL \<le> now_at_check env - timestamp parsed))"
    unfolding cache_check_None_iff [symmetric]
    by (simp add: fetch_calls_fetchData)
next
  fix cached parsed
  assume "cached_text env = Some cached" "JSON_parse env cached = Parsed parsed"
    "version parsed = Some CACHE_VERSION" "now_at_check env - timestamp parsed < CACHE_TTL"
  then have c: "cache_check env = Some parsed"
    by (simp add: cache_check_def)
  then show "fetch_calls (fetchData env) = 0"
    by (simp add: fetchData_def)
  from c show "final_state (fetchData env) =
        \<lparr>state_data = Some (data parsed), state_status = Success, state_error = None\<rparr>"
    by (simp add: fetchData_def)
next
  fix cached
  assume "cached_text env = Some cached" "JSON_parse env cached = ThrowsSyntaxError"
  then have c: "cache_check env = None"
    by (simp add: cache_check_def)
  then show "fetch_calls (fetchData env) = 1"
    by (simp add: fetch_calls_fetchData)
  from c have "fetchData env = live_fetch env"
    by (simp add: fetchData_def)
  then show "final_state (fetchData env)
        = final_state (fetchData (env\<lparr>localStorage := Map.empty\<rparr>))"
    by (simp add: fetchData_empty_storage final_state_live_fetch_storage)
qed

theorem fetch_iff_no_fresh_cache_witness:
  "cached_text example_browser = Some stored_text \<and>
   JSON_parse example_browser stored_text = Parsed stored_record \<and>
   version stored_record = Some CACHE_VERSION \<and>
   now_at_check example_browser - timestamp stored_record < CACHE_TTL \<and>
   fetch_calls (fetchData example_browser) = 0 \<and>
   final_state (fetchData example_browser) =
     \<lparr>state_data = Some (data stored_record), state_status = Success, state_error = None\<rparr> \<and>
   cached_text broken_browser = Some ''{broken'' \<and>
   JSON_parse broken_browser ''{broken'' = ThrowsSyntaxError \<and>
   fetch_calls (fetchData broken_browser) = 1 \<and>
   state_status (final_state (fetchData broken_browser)) = Success"
proof -
  note fresh = cached_text_example_browser JSON_parse_example_browser(1) stored_record_fresh
  note broken = cached_text_broken_browser JSON_parse_example_browser(2)
  from fetch_iff_no_fresh_cache [of example_browser] fresh
  have hit: "fetch_calls (fetchData example_browser) = 0"
    "final_state (fetchData example_browser) =
       \<lparr>state_data = Some (data stored_record), state_status = Success, state_error = None\<rparr>"
    by blast+
  from fetch_iff_no_fresh_cache [of broken_browser] broken
  have miss: "fetch_calls (fetchData broken_browser) = 1"
    by blast
  have "state_status (final_state (fetchData broken_browser)) = Success"
    by (simp add: fetchData_broken_browser)
  with fresh broken hit miss show ?thesis
    by (intro conjI)
qed

text \<open>
  C6, as amended. Every entry of the contributions of a 200 response is one of the
  upstream entries, unchanged, with a date string not after today's; the proxy checks
  the structure of the body and not its entries, so the returned entries satisfy the
  invariant of \<open>ContributionDay\<close> whenever the upstream entries do.
\<close>

theorem entries_pass_through:
  assumes "status (GET rt call) = 200"
    and "settles call = Resolves resp"
    and "response_json resp = JsonResolves (Data (JArray es) tv)"
  shows "\<exists>p. body (GET rt call) = Payload p \<and>
           (\<forall>c \<in> set (contributions p). Activity c \<in> set es \<and> date c \<le> today rt) \<and>
           ((\<forall>c \<in> set (activities es). ContributionDay_invariant c) \<longrightarrow>
              (\<forall>c \<in> set (contributions p). ContributionDay_invariant c))"
proof -
  from GET_200_contributions [OF assms] obtain p s where
    p: "body (GET rt call) = Payload p" "contributions p = lastYearData s"
    and s: "sortedContributions rt es = Inr s"
    by blast
  have a: "\<forall>c \<in> set (contributions p). Activity c \<in> set es \<and> date c \<le> today rt"
    using set_lastYearData [of s] p(2) set_sortedContributions [OF s] by auto
  then have "(\<forall>c \<in> set (activities es). ContributionDay_invariant c) \<longrightarrow>
               (\<forall>c \<in> set (contributions p). ContributionDay_invariant c)"
    by (simp add: set_activities)
  with p(1) a show ?thesis by blast
qed

theorem entries_pass_through_witness:
  "status (GET example_runtime two_year_call) = 200 \<and>
   ContributionDay_invariant \<lparr>date = ''2024-01-01'', date_is_string = True, count = 2, level = 1\<rparr> \<and>
   ContributionDay_invariant \<lparr>date = ''2023-12-31'', date_is_string = True, count = 4, level = 2\<rparr> \<and>
   (\<exists>p. body (GET example_runtime two_year_call) = Payload p \<and>
        list_all ContributionDay_invariant (contributions p))"
proof -
  have s: "status (GET example_runtime two_year_call) = 200"
    by (simp add: GET_two_year_call)
  have i: "ContributionDay_invariant \<lparr>date = ''2024-01-01'', date_is_string = True, count = 2, level = 1\<rparr>"
    "ContributionDay_invariant \<lparr>date = ''2023-12-31'', date_is_string = True, count = 4, level = 2\<rparr>"
    by (simp_all add: ContributionDay_invariant_def calendar_date_def is_digit_def
        number_of_digits_def digit_value_def days_in_month_def leap_year_def)
  from entries_pass_through [OF s settles_two_year_call] i obtain p where
    "body (GET example_runtime two_year_call) = Payload p"
    "\<forall>c \<in> set (contributions p). ContributionDay_invariant c"
    by force
  with s i show ?thesis
    by (auto simp: list_all_iff)
qed

text \<open>
  C6 as the specification states it fails: an upstream entry with month 13, day 45 and
  a negative count is returned in a 200 response.
\<close>

theorem invalid_entry_returned:
  "GET example_runtime
     (responds (Data (JArray [Activity \<lparr>date = ''1999-13-45'', date_is_string = True, count = - 3, level = 9\<rparr>])
                     (JObject [(''1999'', 1)]))) =
     \<lparr>status = 200,
      headers = [(''Content-Type'', ''application/json''),
                 (''Cache-Control'', ''public, max-age=3600, s-maxage=3600'')],
      body = Payload \<lparr>contributions = [\<lparr>date = ''1999-13-45'', date_is_string = True, count = - 3, level = 9\<rparr>],
                       lastYearTotal = - 3, allTimeTotal = NumberValue 1,
                       yearRange = ''NaN - NaN''\<rparr>\<rparr> \<and>
   \<not> ContributionDay_invariant \<lparr>date = ''1999-13-45'', date_is_string = True, count = - 3, level = 9\<rparr>"
  by (simp add: evaluate_GET ContributionDay_invariant_def)

text \<open>
  C7, as amended. In every 200 response \<open>yearRange\<close> is the empty string when the kept
  window is empty. When it is not empty, the first and the last entry are dated by
  calendar dates of the years 1000 to 9999, and the runtime reads each of the two dates
  as its calendar year, \<open>yearRange\<close> has the form \<open>YYYY\<close> or \<open>YYYY - YYYY\<close>: it is the
  calendar year of the first entry if that equals the calendar year of the last entry,
  and otherwise the two years joined as \<open>startYear - endYear\<close>.
\<close>

theorem yearRange_of_window:
  assumes "status (GET rt call) = 200"
  shows "\<exists>p. body (GET rt call) = Payload p \<and>
           (contributions p = [] \<longrightarrow> yearRange p = '''') \<and>
           (contributions p \<noteq> [] \<longrightarrow>
            calendar_date (date (hd (contributions p))) \<longrightarrow>
            calendar_date (date (last (contributions p))) \<longrightarrow>
            1000 \<le> calendar_year (date (hd (contributions p))) \<longrightarrow>
            1000 \<le> calendar_year (date (last (contributions p))) \<longrightarrow>
            getFullYear rt (date (hd (contributions p)))
              = Some (calendar_year (date (hd (contributions p)))) \<longrightarrow>
            getFullYear rt (date (last (contributions p)))
              = Some (calendar_year (date (last (contributions p)))) \<longrightarrow>
            yearRange p =
              (if calendar_year (date (hd (contributions p)))
                    = calendar_year (date (last (contributions p)))
               then take 4 (date (hd (contributions p)))
               else take 4 (date (hd (contributions p))) @ '' - ''
                    @ take 4 (date (last (contributions p)))) \<and>
            yearRange_form (yearRange p))"
proof -
  from GET_200_payload [OF assms] obtain s vs where
    b: "body (GET rt call) = Payload (payload_of rt s vs)"
    by blast
  let ?p = "payload_of rt s vs"
  let ?k = "lastYearData s"
  have c: "contributions ?p = ?k"
    and y: "yearRange ?p = compute_yearRange rt ?k"
    by (simp_all add: payload_of_def)
  have e: "yearRange ?p = ''''" if "contributions ?p = []"
    using that by (simp add: y c compute_yearRange_def)
  have n: "yearRange ?p =
              (if calendar_year (date (hd (contributions ?p)))
                    = calendar_year (date (last (contributions ?p)))
               then take 4 (date (hd (contributions ?p)))
               else take 4 (date (hd (contributions ?p))) @ '' - ''
                    @ take 4 (date (last (contributions ?p)))) \<and>
            yearRange_form (yearRange ?p)"
    if "contributions ?p \<noteq> []"
      "calendar_date (date (hd (contributions ?p)))"
      "calendar_date (date (last (contributions ?p)))"
      "1000 \<le> calendar_year (date (hd (contributions ?p)))"
      "1000 \<le> calendar_year (date (last (contributions ?p)))"
      "getFullYear rt (date (hd (contributions ?p)))
         = Some (calendar_year (date (hd (contributions ?p))))"
      "getFullYear rt (date (last (contributions ?p)))
         = Some (calendar_year (date (last (contributions ?p))))"
  proof -
    from that have k: "?k \<noteq> []"
      "calendar_date (date (hd ?k))" "1000 \<le> calendar_year (date (hd ?k))"
      "calendar_date (date (last ?k))" "1000 \<le> calendar_year (date (last ?k))"
      "getFullYear rt (date (hd ?k)) = Some (calendar_year (date (hd ?k)))"
      "getFullYear rt (date (last ?k)) = Some (calendar_year (date (last ?k)))"
      by (simp_all add: c)
    from compute_yearRange_calendar [OF k] show ?thesis
      by (simp add: y c)
  qed
  from b e n show ?thesis by blast
qed

theorem yearRange_of_window_witness:
  "status (GET example_runtime two_year_call) = 200 \<and>
   calendar_date ''2023-12-31'' \<and> calendar_date ''2024-01-01'' \<and>
   getFullYear example_runtime ''2023-12-31'' = Some (calendar_year ''2023-12-31'') \<and>
   getFullYear example_runtime ''2024-01-01'' = Some (calendar_year ''2024-01-01'') \<and>
   calendar_year ''2023-12-31'' = 2023 \<and> calendar_year ''2024-01-01'' = 2024 \<and>
   (\<exists>p. body (GET example_runtime two_year_call) = Payload p \<and>
        map date (contributions p) = [''2023-12-31'', ''2024-01-01''] \<and>
        yearRange p = ''2023 - 2024'' \<and> yearRange_form (yearRange p))"
proof -
  have s: "status (GET example_runtime two_year_call) = 200"
    by (simp add: GET_two_year_call)
  have d: "calendar_date ''2023-12-31''" "calendar_date ''2024-01-01''"
    "calendar_year ''2023-12-31'' = 2023" "calendar_year ''2024-01-01'' = 2024"
    by (simp_all add: calendar_date_def calendar_year_def is_digit_def
        number_of_digits_def digit_value_def days_in_month_def leap_year_def)
  then have g: "getFullYear example_runtime ''2023-12-31'' = Some (calendar_year ''2023-12-31'')"
    "getFullYear example_runtime ''2024-01-01'' = Some (calendar_year ''2024-01-01'')"
    by (simp_all add: example_runtime_def utc_getFullYear_def)
  from yearRange_of_window [OF s] obtain p where
    p: "body (GET example_runtime two_year_call) = Payload p"
    by blast
  then have "map date (contributions p) = [''2023-12-31'', ''2024-01-01'']"
    and "yearRange p = ''2023 - 2024''"
    by (auto simp: GET_two_year_call)
  moreover have "yearRange_form ''2023 - 2024''"
    by (simp add: yearRange_form_def is_YYYY_def is_digit_def)
  ultimately show ?thesis using s d g p by simp
qed

text \<open>
  C7 as the specification states it fails. With no upstream entries the response is a
  200 whose \<open>yearRange\<close> is the empty string, which has neither form. On a server
  whose local time is behind UTC the only entry, dated \<open>2024-01-01\<close>, gives the
  \<open>yearRange\<close> \<open>2023\<close>, which is not its calendar year. An entry dated \<open>0999-06-15\<close>
  gives \<open>999\<close>, and an entry dated \<open>1999-13-45\<close> gives \<open>NaN - NaN\<close>, neither of which
  has one of the two forms.
\<close>

theorem yearRange_outside_the_forms:
  "GET example_runtime (responds (Data (JArray []) (JObject [(''2023'', 100), (''2024'', 50)]))) =
     \<lparr>status = 200,
      headers = [(''Content-Type'', ''application/json''),
                 (''Cache-Control'', ''public, max-age=3600, s-maxage=3600'')],
      body = Payload \<lparr>contributions = [], lastYearTotal = 0,
                       allTimeTotal = NumberValue 150, yearRange = ''''\<rparr>\<rparr> \<and>
   \<not> yearRange_form '''' \<and>
   status (GET western_runtime (new_year_call ''2024-01-01'')) = 200 \<and>
   returned_yearRange (GET western_runtime (new_year_call ''2024-01-01'')) = ''2023'' \<and>
   calendar_year ''2024-01-01'' = 2024 \<and>
   status (GET example_runtime (new_year_call ''0999-06-15'')) = 200 \<and>
   returned_yearRange (GET example_runtime (new_year_call ''0999-06-15'')) = ''999'' \<and>
   \<not> yearRange_form ''999'' \<and>
   status (GET example_runtime (new_year_call ''1999-13-45'')) = 200 \<and>
   returned_yearRange (GET example_runtime (new_year_call ''1999-13-45'')) = ''NaN - NaN'' \<and>
   \<not> yearRange_form ''NaN - NaN''"
  by (simp add: western_runtime_def western_getFullYear_def new_year_call_def
      returned_yearRange_def evaluate_GET yearRange_form_def is_YYYY_def)

text \<open>
  C8. When the upstream call takes longer than the budget of 10 seconds, so that the
  timer aborts it, the proxy returns status 504 with the body
  \<^verbatim>\<open>{ error: "Request timed out" }\<close>; a call that fails in time with any other error
  gives status 500 with that error's message.
\<close>

theorem timeout_gives_504:
  "(FETCH_TIMEOUT < latency call \<longrightarrow>
      GET rt call =
        \<lparr>status = 504, headers = [(''Content-Type'', ''application/json'')],
         body = ErrorBody ''Request timed out''\<rparr>) \<and>
   (latency call < FETCH_TIMEOUT \<longrightarrow> settles call = Rejects e \<longrightarrow> \<not> is_AbortError e \<longrightarrow>
      GET rt call =
        \<lparr>status = 500, headers = [(''Content-Type'', ''application/json'')],
         body = ErrorBody (message_or ''Unknown error'' e)\<rparr>)"
  by (simp add: GET_def fetch_with_signal_def catch_block_def AbortError_def json_headers_def)

theorem timeout_gives_504_witness:
  "FETCH_TIMEOUT < latency slow_call \<and>
   GET example_runtime slow_call =
     \<lparr>status = 504, headers = [(''Content-Type'', ''application/json'')],
      body = ErrorBody ''Request timed out''\<rparr> \<and>
   latency refused_call < FETCH_TIMEOUT \<and>
   GET example_runtime refused_call =
     \<lparr>status = 500, headers = [(''Content-Type'', ''application/json'')],
      body = ErrorBody ''fetch failed''\<rparr>"
  using timeout_gives_504 [where call = slow_call and rt = example_runtime]
    timeout_gives_504 [where call = refused_call and rt = example_runtime
      and e = "ErrorObject ''TypeError'' ''fetch failed''"]
  by (simp add: slow_call_def refused_call_def FETCH_TIMEOUT_def)

text \<open>
  C9. The tooltip of a day cell reads "No contributions on" and the formatted date
  when the count is 0, "1 contribution on" and the formatted date when it is 1, and
  the count, "contributions on" and the formatted date for every other count; every
  block of the calendar gets the tooltip of its own count and date.
\<close>

theorem tooltip_text:
  "formatTooltip env 0 d = ''No contributions on '' @ formatDate env d \<and>
   formatTooltip env 1 d = ''1 contribution on '' @ formatDate env d \<and>
   (n \<noteq> 0 \<longrightarrow> n \<noteq> 1 \<longrightarrow>
      formatTooltip env n d = Number_toString n @ '' contributions on '' @ formatDate env d) \<and>
   (\<forall>i < length days.
      tooltip_contents env days ! i
        = formatTooltip env (count (days ! i)) (date (days ! i)))"
  by (simp add: formatTooltip_def tooltip_contents_def Let_def)

theorem tooltip_text_witness:
  "formatTooltip example_browser 5 ''2024-01-02'' = ''5 contributions on January 2, 2024'' \<and>
   formatTooltip example_browser 0 ''2024-01-02'' = ''No contributions on January 2, 2024'' \<and>
   formatTooltip example_browser 1 ''2024-01-02'' = ''1 contribution on January 2, 2024'' \<and>
   tooltip_contents example_browser
     [\<lparr>date = ''2024-01-01'', date_is_string = True, count = 2, level = 1\<rparr>,
      \<lparr>date = ''2024-01-02'', date_is_string = True, count = 0, level = 0\<rparr>]
     = [''2 contributions on January 1, 2024'', ''No contributions on January 2, 2024'']"
  using tooltip_text [of example_browser "''2024-01-02''" 5 "[]"]
  by (simp add: tooltip_contents_def formatTooltip_def formatDate_def example_browser_def
      en_US_long_date_def month_name_def calendar_date_def is_digit_def number_of_digits_def
      digit_value_def days_in_month_def leap_year_def Number_toString_def
      string_of_nat.simps digit_char_def Let_def)

text \<open>
  C10. On the cache-hit path the widget does not write to the local store: it makes no
  call of \<open>setItem\<close> and the store after the run is the store that was read. A call of
  \<open>setItem\<close> is made only after a fetch that resolved with an \<open>ok\<close> response whose body
  parsed, while the widget was still mounted; and the store changes only by such a call.
\<close>

theorem cache_hit_writes_nothing:
  "(\<forall>cached parsed.
      cached_text env = Some cached \<longrightarrow> JSON_parse env cached = Parsed parsed \<longrightarrow>
      version parsed = Some CACHE_VERSION \<longrightarrow>
      now_at_check env - timestamp parsed < CACHE_TTL \<longrightarrow>
      setItem_calls (fetchData env) = [] \<and> final_storage (fetchData env) = localStorage env) \<and>
   (setItem_calls (fetchData env) \<noteq> [] \<longrightarrow>
      (\<exists>response result.
         fetch_calls (fetchData env) = 1 \<and>
         fetch_with_signal (api_call env) = Resolves response \<and> ok response \<and>
         response_json response = JsonResolves result \<and> isMounted env \<and>
         final_state (fetchData env) =
           \<lparr>state_data = Some result, state_status = Success, state_error = None\<rparr> \<and>
         setItem_calls (fetchData env) =
           [(CACHE_KEY, JSON_stringify env \<lparr>data = result, timestamp = now_at_write env,
                                             version = Some CACHE_VERSION\<rparr>)])) \<and>
   (final_storage (fetchData env) \<noteq> localStorage env \<longrightarrow> setItem_calls (fetchData env) \<noteq> [])"
proof (intro conjI allI impI)
  fix cached parsed
  assume "cached_text env = Some cached" "JSON_parse env cached = Parsed parsed"
    "version parsed = Some CACHE_VERSION" "now_at_check env - timestamp parsed < CACHE_TTL"
  then have c: "cache_check env = Some parsed"
    by (simp add: cache_check_def)
  then show "setItem_calls (fetchData env) = []"
    by (simp add: fetchData_def)
  from c show "final_storage (fetchData env) = localStorage env"
    by (simp add: fetchData_def)
next
  assume w: "setItem_calls (fetchData env) \<noteq> []"
  then have n: "cache_check env = None"
    by (auto simp: fetchData_def split: option.splits)
  then have f: "fetchData env = live_fetch env"
    by (simp add: fetchData_def)
  with w have w': "setItem_calls (live_fetch env) \<noteq> []" by simp
  then obtain response where r: "fetch_with_signal (api_call env) = Resolves response"
    by (cases "fetch_with_signal (api_call env)") (simp_all add: live_fetch_def fetch_failed_def)
  with w' have k: "ok response"
    by (cases "ok response") (simp_all add: live_fetch_def fetch_failed_def)
  with r w' obtain result where j: "response_json response = JsonResolves result"
    by (cases "response_json response") (simp_all add: live_fetch_def fetch_failed_def)
  with r k have l: "live_fetch env = fetch_succeeded env result"
    by (simp add: live_fetch_def)
  with w' have m: "isMounted env"
    by (cases "isMounted env") (simp_all add: fetch_succeeded_def)
  from l m f have
    "fetch_calls (fetchData env) = 1"
    "final_state (fetchData env) =
       \<lparr>state_data = Some result, state_status = Success, state_error = None\<rparr>"
    "setItem_calls (fetchData env) =
       [(CACHE_KEY, JSON_stringify env \<lparr>data = result, timestamp = now_at_write env,
                                         version = Some CACHE_VERSION\<rparr>)]"
    by (simp_all add: fetch_succeeded_def Let_def)
  with r k j m show "\<exists>response result.
         fetch_calls (fetchData env) = 1 \<and>
         fetch_with_signal (api_call env) = Resolves response \<and> ok response \<and>
         response_json response = JsonResolves result \<and> isMounted env \<and>
         final_state (fetchData env) =
           \<lparr>state_data = Some result, state_status = Success, state_error = None\<rparr> \<and>
         setItem_calls (fetchData env) =
           [(CACHE_KEY, JSON_stringify env \<lparr>data = result, timestamp = now_at_write env,
                                             version = Some CACHE_VERSION\<rparr>)]"
    by blast
next
  assume s: "final_storage (fetchData env) \<noteq> localStorage env"
  show "setItem_calls (fetchData env) \<noteq> []"
  proof
    assume e: "setItem_calls (fetchData env) = []"
    have "final_storage (fetchData env) = localStorage env"
    proof (cases "cache_check env")
      case (Some parsed)
      then show ?thesis by (simp add: fetchData_def)
    next
      case None
      with e have "setItem_calls (live_fetch env) = []"
        by (simp add: fetchData_def)
      then have "final_storage (live_fetch env) = localStorage env"
        by (auto simp: live_fetch_def fetch_failed_def fetch_succeeded_def Let_def
            split: settled.splits json_result.splits if_splits)
      with None show ?thesis by (simp add: fetchData_def)
    qed
    with s show False by simp
  qed
qed

theorem cache_hit_writes_nothing_witness:
  "cached_text example_browser = Some stored_text \<and>
   JSON_parse example_browser stored_text = Parsed stored_record \<and>
   version stored_record = Some CACHE_VERSION \<and>
   now_at_check example_browser - timestamp stored_record < CACHE_TTL \<and>
   setItem_calls (fetchData example_browser) = [] \<and>
   final_storage (fetchData example_browser) CACHE_KEY = Some stored_text \<and>
   setItem_calls (fetchData broken_browser) = [(CACHE_KEY, written_text)] \<and>
   fetch_calls (fetchData broken_browser) = 1 \<and>
   final_storage (fetchData broken_browser) CACHE_KEY = Some written_text"
proof -
  note fresh = cached_text_example_browser JSON_parse_example_browser(1) stored_record_fresh
  from cache_hit_writes_nothing [of example_browser] fresh
  have hit: "setItem_calls (fetchData example_browser) = []"
    "final_storage (fetchData example_browser) = localStorage example_browser"
    by blast+
  from hit(2) have kept: "final_storage (fetchData example_browser) CACHE_KEY = Some stored_text"
    by (simp add: example_browser_def)
  have written: "setItem_calls (fetchData broken_browser) = [(CACHE_KEY, written_text)]"
    "fetch_calls (fetchData broken_browser) = 1"
    "final_storage (fetchData broken_browser) CACHE_KEY = Some written_text"
    by (simp_all add: fetchData_broken_browser)
  from fresh hit(1) kept written show ?thesis
    by (intro conjI)
qed

end
